theory Spec2Isabelle
  imports Main "HOL-Library.Word"
begin

section \<open>Flat indexing helpers of sofainfo.cpp\<close>

text \<open>
  \<^verbatim>\<open>unsigned long\<close> and \<^verbatim>\<open>std::size_t\<close> are read as 64-bit unsigned integers
  (the LP64 data model); \<open>+\<close> and \<open>*\<close> on them wrap around modulo \<open>2 ^ 64\<close>.
\<close>

type_synonym size_t = "64 word"

text \<open>
  \<^verbatim>\<open>return dim2 * dim3 * i + dim3 * j + k;\<close>
  The parameter \<open>dim1\<close> is declared and never read.
\<close>

definition array3DIndex :: "size_t \<Rightarrow> size_t \<Rightarrow> size_t \<Rightarrow> size_t \<Rightarrow> size_t \<Rightarrow> size_t \<Rightarrow> size_t" where
  "array3DIndex i j k dim1 dim2 dim3 = dim2 * dim3 * i + dim3 * j + k"

text \<open>\<^verbatim>\<open>return dim2 * i + j;\<close>\<close>

definition array2DIndex :: "size_t \<Rightarrow> size_t \<Rightarrow> size_t \<Rightarrow> size_t \<Rightarrow> size_t" where
  "array2DIndex i j dim1 dim2 = dim2 * i + j"

subsection \<open>The row-major formula of the specification\<close>

text \<open>
  Written from the words of the specification, for comparison with the two helpers:
  for shape \<open>[d0, ..., dn-1]\<close> the flat index of \<open>(i0, ..., in-1)\<close> is the sum over \<open>k\<close>
  of \<open>ik\<close> times the product of the \<open>dj\<close> with \<open>j > k\<close>. The definition is generic in
  the arithmetic, so it can be read over \<open>size_t\<close> and over \<open>nat\<close>.
\<close>

definition spec_row_major :: "'n::comm_semiring_1 list \<Rightarrow> 'n list \<Rightarrow> 'n" where
  "spec_row_major shape idx =
     sum_list (map (\<lambda>k. idx ! k * prod_list (drop (Suc k) shape)) [0..<length shape])"

text \<open>
  Modelled from the spec: the source has no decoding function; \<open>unflatten\<close> is the
  inverse the specification names, computed by successive division and modulo over the
  inner dimension sizes.
\<close>

definition unflatten2D :: "size_t \<Rightarrow> size_t \<Rightarrow> size_t \<Rightarrow> size_t \<times> size_t" where
  "unflatten2D index dim1 dim2 = (index div dim2, index mod dim2)"

definition unflatten3D :: "size_t \<Rightarrow> size_t \<Rightarrow> size_t \<Rightarrow> size_t \<Rightarrow> size_t \<times> size_t \<times> size_t" where
  "unflatten3D index dim1 dim2 dim3 =
     (let rest = index div dim3
      in (rest div dim2, rest mod dim2, index mod dim3))"

text \<open>A multi-index is valid for a shape when each component is below its dimension size.\<close>

definition valid2D :: "size_t \<Rightarrow> size_t \<Rightarrow> size_t \<Rightarrow> size_t \<Rightarrow> bool" where
  "valid2D i j dim1 dim2 = (i < dim1 \<and> j < dim2)"

definition valid3D :: "size_t \<Rightarrow> size_t \<Rightarrow> size_t \<Rightarrow> size_t \<Rightarrow> size_t \<Rightarrow> size_t \<Rightarrow> bool" where
  "valid3D i j k dim1 dim2 dim3 = (i < dim1 \<and> j < dim2 \<and> k < dim3)"

text \<open>The number of elements of a shape, as a natural number (no wrap-around).\<close>

definition element_count :: "size_t list \<Rightarrow> nat" where
  "element_count shape = prod_list (map unat shape)"

section \<open>Control flow of sofainfo.cpp\<close>

text \<open>
  How a run of the tool can stop early: a library call throws (caught in \<open>main\<close>), a
  \<^verbatim>\<open>SOFA_ASSERT\<close> fails, a \<^verbatim>\<open>std::vector\<close> is indexed past its end by the tool
  (\<open>OutOfRange\<close>), or the library stores past the end of the buffer it was handed
  (\<open>Overrun\<close>). C++ leaves the last two undefined; the model reports them.
\<close>

datatype exn = StdException | OtherException

datatype stop = Thrown exn | AssertFailed | OutOfRange | Overrun

definition bind :: "stop + 'x \<Rightarrow> ('x \<Rightarrow> stop + 'y) \<Rightarrow> stop + 'y" where
  "bind m f = (case m of Inl e \<Rightarrow> Inl e | Inr x \<Rightarrow> f x)"

text \<open>A call into the library, which returns or throws.\<close>

definition call :: "exn + 'x \<Rightarrow> stop + 'x" where
  "call r = (case r of Inl e \<Rightarrow> Inl (Thrown e) | Inr x \<Rightarrow> Inr x)"

text \<open>
  Modelled from the spec: the macro \<^verbatim>\<open>SOFA_ASSERT\<close> is defined in a header that is not
  among the sources. The specification calls these checks hard assertions that are fatal
  on failure; \<open>checked\<close> says whether the build compiles them in.
\<close>

definition SOFA_ASSERT :: "bool \<Rightarrow> bool \<Rightarrow> stop + unit" where
  "SOFA_ASSERT checked cond = (if checked \<and> \<not> cond then Inl AssertFailed else Inr ())"

text \<open>\<^verbatim>\<open>v[n]\<close> on a \<^verbatim>\<open>std::vector\<close>.\<close>

definition vec_at :: "'a list \<Rightarrow> nat \<Rightarrow> stop + 'a" where
  "vec_at v n = (if n < length v then Inr (v ! n) else Inl OutOfRange)"

text \<open>
  A library accessor that is handed \<^verbatim>\<open>&pos[0]\<close> stores values from there on; it cannot
  change the size of the vector. Storing more values than the vector holds runs past its end.
\<close>

definition stored_through :: "'a list \<Rightarrow> 'a list \<Rightarrow> stop + 'a list" where
  "stored_through pos written =
     (if length written \<le> length pos then Inr (written @ drop (length written) pos)
      else Inl Overrun)"

text \<open>
  \<^verbatim>\<open>for (std::size_t i = 0; i < n; i++) body\<close>, started at \<open>i\<close>. The body may stop the run;
  otherwise it returns the state for the next round.
\<close>

function for_loop :: "size_t \<Rightarrow> size_t \<Rightarrow> (size_t \<Rightarrow> 's \<Rightarrow> stop + 's) \<Rightarrow> 's \<Rightarrow> stop + 's" where
  "for_loop i n body s =
     (if i < n then
        (case body i s of Inl e \<Rightarrow> Inl e | Inr s' \<Rightarrow> for_loop (i + 1) n body s')
      else Inr s)"
  by pat_completeness auto
termination
proof (relation "measure (\<lambda>(i, n, body, s). unat n - unat i)")
  show "wf (measure (\<lambda>(i, n, body, s). unat n - unat i))" by simp
next
  fix i n :: size_t and body :: "size_t \<Rightarrow> 's \<Rightarrow> stop + 's" and s x2 :: 's
  assume "i < n"
  then have "unat i < unat n" by (simp add: word_less_nat_alt)
  moreover have "unat i + unat (1 :: size_t) < 2 ^ LENGTH(64)"
    using \<open>unat i < unat n\<close> unsigned_less [of n, where ?'a = nat] by simp
  then have "unat (i + 1) = Suc (unat i)"
    using unat_add_lem [of i 1] by simp
  ultimately show "((i + 1, n, body, x2), (i, n, body, s)) \<in> measure (\<lambda>(i, n, body, s). unat n - unat i)"
    by simp
qed

declare for_loop.simps [simp del]

text \<open>
  Of the text written to the stream the model keeps the help message and the numbers read
  from the buffers, in the order written; labels, padding and line ends are left out.
\<close>

datatype 'a out_item = Txt string | Num 'a

text \<open>\<^verbatim>\<open>output << v[n] << " ";\<close>\<close>

definition print_at :: "'a list \<Rightarrow> size_t \<Rightarrow> 'a out_item list \<Rightarrow> stop + 'a out_item list" where
  "print_at v index output = bind (vec_at v (unat index)) (\<lambda>x. Inr (output @ [Num x]))"

text \<open>
  The two loop nests that every printing routine repeats:
  \<^verbatim>\<open>
  for (i = 0; i < dim1; i++)
    for (j = 0; j < dim2; j++) {
      const std::size_t index = array2DIndex(i, j, dim1, dim2);
      output << pos[index] << " ";
    }
  \<close>
  and the same with a third loop over \<open>k\<close> and \<open>array3DIndex\<close>.
\<close>

definition print_loop2D :: "'a list \<Rightarrow> size_t \<Rightarrow> size_t \<Rightarrow> 'a out_item list \<Rightarrow> stop + 'a out_item list" where
  "print_loop2D pos dim1 dim2 output =
     for_loop 0 dim1 (\<lambda>i.
       for_loop 0 dim2 (\<lambda>j.
         print_at pos (array2DIndex i j dim1 dim2))) output"

definition print_loop3D :: "'a list \<Rightarrow> size_t \<Rightarrow> size_t \<Rightarrow> size_t \<Rightarrow> 'a out_item list \<Rightarrow> stop + 'a out_item list" where
  "print_loop3D pos dim1 dim2 dim3 output =
     for_loop 0 dim1 (\<lambda>i.
       for_loop 0 dim2 (\<lambda>j.
         for_loop 0 dim3 (\<lambda>k.
           print_at pos (array3DIndex i j k dim1 dim2 dim3)))) output"

text \<open>
  The values the loop variable of \<^verbatim>\<open>for (i = start; i < n; i++)\<close> takes, in order, and the
  flat indices the two loop nests compute, in order.
\<close>

definition loop_values :: "size_t \<Rightarrow> size_t \<Rightarrow> size_t list" where
  "loop_values start n = map of_nat [unat start..<unat n]"

definition reads2D :: "size_t \<Rightarrow> size_t \<Rightarrow> size_t list" where
  "reads2D dim1 dim2 =
     concat (map (\<lambda>i. map (\<lambda>j. array2DIndex i j dim1 dim2) (loop_values 0 dim2))
       (loop_values 0 dim1))"

definition reads3D :: "size_t \<Rightarrow> size_t \<Rightarrow> size_t \<Rightarrow> size_t list" where
  "reads3D dim1 dim2 dim3 =
     concat (map (\<lambda>i. concat (map (\<lambda>j. map (\<lambda>k. array3DIndex i j k dim1 dim2 dim3)
       (loop_values 0 dim3)) (loop_values 0 dim2))) (loop_values 0 dim1))"

text \<open>What a loop nest prints when every index it computes is inside the vector.\<close>

definition in_bounds :: "'a list \<Rightarrow> size_t list \<Rightarrow> bool" where
  "in_bounds v indices = list_all (\<lambda>index. unat index < length v) indices"

definition printed :: "'a list \<Rightarrow> size_t list \<Rightarrow> 'a out_item list" where
  "printed v indices = map (\<lambda>index. Num (v ! unat index)) indices"

subsection \<open>The library the tool calls\<close>

text \<open>
  \<^verbatim>\<open>sofa::File\<close> and \<^verbatim>\<open>sofa::FreeFieldDirectivityTF\<close> are implemented outside the two
  source files; only their calls are visible. Their behaviour is a parameter of the model:
  every call returns a value or throws. \<open>'f\<close> is the type of an open file, \<open>'a\<close> the type
  of the stored numbers (\<^verbatim>\<open>double\<close>, of which only the zero of \<^verbatim>\<open>resize\<close> is used).

  \<^item> \<open>GetPositionInfo f name\<close>: \<^verbatim>\<open>Get<name>(coordinates, units)\<close>, the \<^verbatim>\<open>bool\<close> it returns;
  \<^item> \<open>GetVariableDimensions f name\<close>: the vector \<open>dims\<close> after the call;
  \<^item> \<open>GetValues2D f name d1 d2\<close> and \<open>GetValues3D f name d1 d2 d3\<close>:
    \<^verbatim>\<open>Get<name>(&pos[0], d1, d2)\<close> and \<^verbatim>\<open>Get<name>(&pos[0], d1, d2, d3)\<close>, the \<^verbatim>\<open>bool\<close>
    returned and the values stored from \<^verbatim>\<open>&pos[0]\<close> on;
  \<^item> \<open>GetFrequencyValues\<close>, \<open>GetDataReal\<close>, \<open>GetDataImag\<close>: the \<^verbatim>\<open>bool\<close> returned and
    the vector passed by reference, as it is after the call;
  \<^item> \<open>can_allocate count\<close>: whether a \<^verbatim>\<open>std::vector<double>\<close> of \<open>count\<close> elements can be
    allocated (\<^verbatim>\<open>max_size()\<close> and the memory at hand); this belongs to the C++ runtime and
    is a parameter like the rest.
\<close>

record ('f, 'a) library =
  OpenFile :: "string \<Rightarrow> exn + 'f"
  IsValid :: "'f \<Rightarrow> exn + bool"
  PrintAllAttributes :: "'f \<Rightarrow> exn + unit"
  PrintSOFADimensions :: "'f \<Rightarrow> exn + unit"
  GetAttributeValueAsString :: "'f \<Rightarrow> string \<Rightarrow> exn + string"
  OpenDirectivity :: "string \<Rightarrow> exn + 'f"
  IsValidDirectivity :: "'f \<Rightarrow> exn + bool"
  GetNumReceivers :: "'f \<Rightarrow> exn + size_t"
  GetNumEmitters :: "'f \<Rightarrow> exn + size_t"
  GetNumMeasurements :: "'f \<Rightarrow> exn + size_t"
  GetNumDataSamples :: "'f \<Rightarrow> exn + size_t"
  GetPositionInfo :: "'f \<Rightarrow> string \<Rightarrow> exn + bool"
  GetVariableDimensions :: "'f \<Rightarrow> string \<Rightarrow> exn + size_t list"
  GetValues2D :: "'f \<Rightarrow> string \<Rightarrow> size_t \<Rightarrow> size_t \<Rightarrow> exn + bool \<times> 'a list"
  GetValues3D :: "'f \<Rightarrow> string \<Rightarrow> size_t \<Rightarrow> size_t \<Rightarrow> size_t \<Rightarrow> exn + bool \<times> 'a list"
  GetFrequencyValues :: "'f \<Rightarrow> exn + bool \<times> 'a list"
  GetDataReal :: "'f \<Rightarrow> exn + bool \<times> 'a list"
  GetDataImag :: "'f \<Rightarrow> exn + bool \<times> 'a list"
  can_allocate :: "nat \<Rightarrow> bool"

text \<open>
  \<^verbatim>\<open>v.resize(n)\<close> on a freshly constructed vector of doubles: \<open>n\<close> zeros. When a vector of
  \<open>n\<close> elements cannot be allocated, \<^verbatim>\<open>resize\<close> throws \<^verbatim>\<open>std::length_error\<close> or
  \<^verbatim>\<open>std::bad_alloc\<close>, both of them a \<^verbatim>\<open>std::exception\<close>.
\<close>

definition resize :: "('f, 'a::zero) library \<Rightarrow> size_t \<Rightarrow> stop + 'a list" where
  "resize lib n =
     (if can_allocate lib (unat n) then Inr (replicate (unat n) 0) else Inl (Thrown StdException))"

subsection \<open>The printing routines\<close>

text \<open>
  The body that \<open>PrintEmitter\<close> and \<open>PrintReceiver\<close> share word for word, the variable
  name apart: the rank of the variable selects the two-index or the three-index access.
  The \<^verbatim>\<open>bool\<close> returned by the value accessor is not looked at.
\<close>

definition print_rank2or3 ::
  "('f, 'a::zero) library \<Rightarrow> bool \<Rightarrow> 'f \<Rightarrow> string \<Rightarrow> 'a out_item list \<Rightarrow> stop + 'a out_item list" where
  "print_rank2or3 lib checked theFile name output =
     bind (call (GetPositionInfo lib theFile name)) (\<lambda>ok.
     bind (SOFA_ASSERT checked (ok = True)) (\<lambda>_.
     bind (call (GetVariableDimensions lib theFile name)) (\<lambda>dims.
     bind (SOFA_ASSERT checked (length dims = 3 \<or> length dims = 2)) (\<lambda>_.
     if length dims = 2 then
       bind (vec_at dims 0) (\<lambda>d0.
       bind (vec_at dims 1) (\<lambda>d1.
       bind (resize lib (d0 * d1)) (\<lambda>pos.
       bind (call (GetValues2D lib theFile name d0 d1)) (\<lambda>(_, written).
       bind (stored_through pos written) (\<lambda>pos.
       print_loop2D pos d0 d1 output)))))
     else
       bind (vec_at dims 0) (\<lambda>d0.
       bind (vec_at dims 1) (\<lambda>d1.
       bind (vec_at dims 2) (\<lambda>d2.
       bind (resize lib (d0 * d1 * d2)) (\<lambda>pos.
       bind (call (GetValues3D lib theFile name d0 d1 d2)) (\<lambda>(_, written).
       bind (stored_through pos written) (\<lambda>pos.
       print_loop3D pos d0 d1 d2 output))))))))))"

definition PrintEmitter ::
  "('f, 'a::zero) library \<Rightarrow> bool \<Rightarrow> 'f \<Rightarrow> 'a out_item list \<Rightarrow> stop + 'a out_item list" where
  "PrintEmitter lib checked theFile output =
     print_rank2or3 lib checked theFile ''EmitterPosition'' output"

definition PrintReceiver ::
  "('f, 'a::zero) library \<Rightarrow> bool \<Rightarrow> 'f \<Rightarrow> 'a out_item list \<Rightarrow> stop + 'a out_item list" where
  "PrintReceiver lib checked theFile output =
     print_rank2or3 lib checked theFile ''ReceiverPosition'' output"

text \<open>
  The block that \<open>PrintListener\<close> runs three times and \<open>PrintSource\<close> once: rank 2 is
  asserted, and the two-index access is used whatever the rank is.
\<close>

definition print_rank2 ::
  "('f, 'a::zero) library \<Rightarrow> bool \<Rightarrow> 'f \<Rightarrow> string \<Rightarrow> 'a out_item list \<Rightarrow> stop + 'a out_item list" where
  "print_rank2 lib checked theFile name output =
     bind (call (GetPositionInfo lib theFile name)) (\<lambda>ok.
     bind (SOFA_ASSERT checked (ok = True)) (\<lambda>_.
     bind (call (GetVariableDimensions lib theFile name)) (\<lambda>dims.
     bind (SOFA_ASSERT checked (length dims = 2)) (\<lambda>_.
     bind (vec_at dims 0) (\<lambda>d0.
     bind (vec_at dims 1) (\<lambda>d1.
     bind (resize lib (d0 * d1)) (\<lambda>pos.
     bind (call (GetValues2D lib theFile name d0 d1)) (\<lambda>(_, written).
     bind (stored_through pos written) (\<lambda>pos.
     print_loop2D pos d0 d1 output)))))))))"

definition PrintListener ::
  "('f, 'a::zero) library \<Rightarrow> bool \<Rightarrow> 'f \<Rightarrow> 'a out_item list \<Rightarrow> stop + 'a out_item list" where
  "PrintListener lib checked theFile output =
     bind (print_rank2 lib checked theFile ''ListenerPosition'' output) (\<lambda>output.
     bind (print_rank2 lib checked theFile ''ListenerView'' output) (\<lambda>output.
     print_rank2 lib checked theFile ''ListenerUp'' output))"

definition PrintSource ::
  "('f, 'a::zero) library \<Rightarrow> bool \<Rightarrow> 'f \<Rightarrow> 'a out_item list \<Rightarrow> stop + 'a out_item list" where
  "PrintSource lib checked theFile output =
     print_rank2 lib checked theFile ''SourcePosition'' output"

subsection \<open>main\<close>

text \<open>How the process ends: \<open>main\<close> returns a code, \<^verbatim>\<open>exit\<close> is called, or the run breaks.\<close>

datatype 'a ending = Returned int "'a out_item list" | Exited int | Broken stop

definition DisplayHelp :: "'a out_item list" where
  "DisplayHelp =
     [Txt ''sofainfo prints info about SOFA files'', Txt ''    syntax : ./sofainfo [filename]'']"

definition is_help_flag :: "string \<Rightarrow> bool" where
  "is_help_flag in' =
     (in' = ''h'' \<or> in' = ''-h'' \<or> in' = ''--h'' \<or> in' = ''--help'' \<or> in' = ''-help'')"

text \<open>\<^verbatim>\<open>(unsigned int) x\<close>, and the value converted back where it meets a \<^verbatim>\<open>std::size_t\<close>.\<close>

definition to_unsigned_int :: "size_t \<Rightarrow> 32 word" where
  "to_unsigned_int x = ucast x"

definition to_size_t :: "32 word \<Rightarrow> size_t" where
  "to_size_t x = ucast x"

text \<open>
  The frequency and data part of \<open>main\<close>: the results of \<open>GetFrequencyValues\<close>,
  \<open>GetDataReal\<close> and \<open>GetDataImag\<close> are dropped, and the vectors are indexed up to \<open>N\<close>
  and over \<open>[M, R, N]\<close>.
\<close>

definition print_data ::
  "('f, 'a) library \<Rightarrow> 'f \<Rightarrow> 32 word \<Rightarrow> 32 word \<Rightarrow> 32 word \<Rightarrow> 'a out_item list \<Rightarrow> stop + 'a out_item list" where
  "print_data lib directivity M R N output =
     bind (call (GetFrequencyValues lib directivity)) (\<lambda>(_, frequencies).
     bind (for_loop 0 (to_size_t N) (\<lambda>i. print_at frequencies i) output) (\<lambda>output.
     bind (call (GetDataReal lib directivity)) (\<lambda>(_, data_real).
     bind (print_loop3D data_real (to_size_t M) (to_size_t R) (to_size_t N) output) (\<lambda>output.
     bind (call (GetDataImag lib directivity)) (\<lambda>(_, data_imag).
     print_loop3D data_imag (to_size_t M) (to_size_t R) (to_size_t N) output)))))"

text \<open>The \<^verbatim>\<open>try\<close> block: the code \<open>main\<close> returns and what was printed, unless the run stops.\<close>

definition main_try ::
  "('f, 'a::zero) library \<Rightarrow> bool \<Rightarrow> string \<Rightarrow> stop + int \<times> 'a out_item list" where
  "main_try lib checked filename =
     bind (call (OpenFile lib filename)) (\<lambda>theFile.
     bind (call (IsValid lib theFile)) (\<lambda>isSOFA.
     if \<not> isSOFA then Inr (0, [])
     else
       bind (call (PrintAllAttributes lib theFile)) (\<lambda>_.
       bind (call (PrintSOFADimensions lib theFile)) (\<lambda>_.
       bind (call (GetAttributeValueAsString lib theFile ''DataType'')) (\<lambda>dataType.
       bind (call (OpenDirectivity lib filename)) (\<lambda>directivity.
       bind (call (IsValidDirectivity lib directivity)) (\<lambda>isDirectivity.
       if \<not> isDirectivity then Inr (0, [])
       else
         bind (call (GetNumReceivers lib directivity)) (\<lambda>r.
         bind (call (GetNumEmitters lib directivity)) (\<lambda>e.
         bind (call (GetNumMeasurements lib directivity)) (\<lambda>m.
         bind (call (GetNumDataSamples lib directivity)) (\<lambda>n.
         bind (PrintReceiver lib checked theFile []) (\<lambda>output.
         bind (PrintEmitter lib checked theFile output) (\<lambda>output.
         bind (print_data lib directivity (to_unsigned_int m) (to_unsigned_int r)
                 (to_unsigned_int n) output) (\<lambda>output.
         Inr (0, output)))))))))))))))"

text \<open>
  \<open>argv\<close> holds the program name and the arguments, so \<^verbatim>\<open>argc\<close> is its length. Both
  \<^verbatim>\<open>catch\<close> clauses print to \<^verbatim>\<open>std::cerr\<close> and call \<^verbatim>\<open>exit(1)\<close>.
\<close>

definition main :: "('f, 'a::zero) library \<Rightarrow> bool \<Rightarrow> string list \<Rightarrow> 'a ending" where
  "main lib checked argv =
     (if length argv = 2 then
        (if is_help_flag (argv ! 1) then Returned 0 DisplayHelp
         else
           (case main_try lib checked (argv ! 1) of
              Inr (code, output) \<Rightarrow> Returned code output
            | Inl (Thrown e) \<Rightarrow> Exited 1
            | Inl AssertFailed \<Rightarrow> Broken AssertFailed
            | Inl OutOfRange \<Rightarrow> Broken OutOfRange
            | Inl Overrun \<Rightarrow> Broken Overrun))
      else Returned 0 DisplayHelp)"

text \<open>
  The dimensions the library reports for a variable have one of the given ranks and an
  element count below \<open>2 ^ 64\<close>. Nothing is asked when the call throws.
\<close>

definition dims_fit :: "('f, 'a) library \<Rightarrow> 'f \<Rightarrow> string \<Rightarrow> nat list \<Rightarrow> bool" where
  "dims_fit lib theFile name ranks =
     (case GetVariableDimensions lib theFile name of
        Inl e \<Rightarrow> True
      | Inr dims \<Rightarrow> length dims \<in> set ranks \<and> element_count dims < 2 ^ 64)"

text \<open>
  The answers of the library for a position variable of rank 2 or 3: the info call returns
  (with \<open>true\<close>, when the assertions are compiled in), the dimensions are the given ones,
  and the value accessor of that rank returns after it has stored \<open>written\<close>.
\<close>

definition answers2D ::
  "('f, 'a) library \<Rightarrow> bool \<Rightarrow> 'f \<Rightarrow> string \<Rightarrow> size_t \<Rightarrow> size_t \<Rightarrow> 'a list \<Rightarrow> bool" where
  "answers2D lib checked theFile name d0 d1 written =
     (case GetPositionInfo lib theFile name of
        Inl e \<Rightarrow> False
      | Inr ok \<Rightarrow>
          (ok \<or> \<not> checked) \<and> GetVariableDimensions lib theFile name = Inr [d0, d1]
          \<and> (case GetValues2D lib theFile name d0 d1 of
                Inl e \<Rightarrow> False
              | Inr (b, w) \<Rightarrow> w = written))"

definition answers3D ::
  "('f, 'a) library \<Rightarrow> bool \<Rightarrow> 'f \<Rightarrow> string \<Rightarrow> size_t \<Rightarrow> size_t \<Rightarrow> size_t \<Rightarrow> 'a list \<Rightarrow> bool" where
  "answers3D lib checked theFile name d0 d1 d2 written =
     (case GetPositionInfo lib theFile name of
        Inl e \<Rightarrow> False
      | Inr ok \<Rightarrow>
          (ok \<or> \<not> checked) \<and> GetVariableDimensions lib theFile name = Inr [d0, d1, d2]
          \<and> (case GetValues3D lib theFile name d0 d1 d2 of
                Inl e \<Rightarrow> False
              | Inr (b, w) \<Rightarrow> w = written))"

text \<open>
  What a block prints from a buffer of exactly \<open>count\<close> elements: nothing when the buffer
  cannot be allocated, nothing when the library stored more than \<open>count\<close> values, and
  otherwise the stored values followed by zeros, \<open>count\<close> numbers in all.
\<close>

definition block_result ::
  "('f, 'a::zero) library \<Rightarrow> nat \<Rightarrow> 'a list \<Rightarrow> 'a out_item list \<Rightarrow> stop + 'a out_item list" where
  "block_result lib count written output =
     (if \<not> can_allocate lib count then Inl (Thrown StdException)
      else if count < length written then Inl Overrun
      else Inr (output @ map Num (written @ replicate (count - length written) 0)))"

text \<open>
  A library for examples: every file opens and is valid, every position variable has the
  dimensions \<open>dims\<close> and its value accessors store \<open>values\<close>; the four counts are \<open>r\<close>,
  \<open>e\<close>, \<open>m\<close>, \<open>n\<close>; the three data calls return \<open>ok\<close> and leave \<open>freq\<close>, \<open>re\<close> and \<open>im\<close>
  in the vector; a vector can have up to \<open>2 ^ 60 - 1\<close> elements.
\<close>

definition example_library ::
  "size_t list \<Rightarrow> 'a list \<Rightarrow> size_t \<Rightarrow> size_t \<Rightarrow> size_t \<Rightarrow> size_t \<Rightarrow> bool \<Rightarrow> 'a list \<Rightarrow> 'a list \<Rightarrow> 'a list
     \<Rightarrow> (unit, 'a) library" where
  "example_library dims values r e m n ok freq re im =
     \<lparr> OpenFile = (\<lambda>path. Inr ()),
       IsValid = (\<lambda>f. Inr True),
       PrintAllAttributes = (\<lambda>f. Inr ()),
       PrintSOFADimensions = (\<lambda>f. Inr ()),
       GetAttributeValueAsString = (\<lambda>f name. Inr ''FrequencyResponse''),
       OpenDirectivity = (\<lambda>path. Inr ()),
       IsValidDirectivity = (\<lambda>f. Inr True),
       GetNumReceivers = (\<lambda>f. Inr r),
       GetNumEmitters = (\<lambda>f. Inr e),
       GetNumMeasurements = (\<lambda>f. Inr m),
       GetNumDataSamples = (\<lambda>f. Inr n),
       GetPositionInfo = (\<lambda>f name. Inr True),
       GetVariableDimensions = (\<lambda>f name. Inr dims),
       GetValues2D = (\<lambda>f name d1 d2. Inr (True, values)),
       GetValues3D = (\<lambda>f name d1 d2 d3. Inr (True, values)),
       GetFrequencyValues = (\<lambda>f. Inr (ok, freq)),
       GetDataReal = (\<lambda>f. Inr (ok, re)),
       GetDataImag = (\<lambda>f. Inr (ok, im)),
       can_allocate = (\<lambda>count. int count \<le> 1152921504606846975) \<rparr>"

text \<open>The same library, except that no file can be opened.\<close>

definition unopenable_library :: "(unit, 'a) library" where
  "unopenable_library =
     (example_library [] [] 0 0 0 0 True [] [] []) \<lparr> OpenFile := (\<lambda>path. Inl StdException) \<rparr>"

text \<open>The same library, except that validation, or reading \<open>Data.Real\<close>, throws.\<close>

definition unvalidatable_library :: "(unit, 'a) library" where
  "unvalidatable_library =
     (example_library [] [] 0 0 0 0 True [] [] []) \<lparr> IsValid := (\<lambda>f. Inl OtherException) \<rparr>"

definition unreadable_library :: "(unit, 'a) library" where
  "unreadable_library =
     (example_library [1, 1] [] 0 0 0 0 True [] [] []) \<lparr> GetDataReal := (\<lambda>f. Inl StdException) \<rparr>"

section \<open>The typed accessors, after the specification\<close>

text \<open>
  Modelled from the spec: the bodies of the accessors of \<^verbatim>\<open>sofa::File\<close> and
  \<^verbatim>\<open>sofa::FreeFieldDirectivityTF\<close> (the value accessors of the positions,
  \<^verbatim>\<open>GetFrequencyValues\<close>, \<^verbatim>\<open>GetDataReal\<close>, \<^verbatim>\<open>GetDataImag\<close>) are not among the sources; the
  header only declares the last three. What follows is the data model and the accessor
  contracts of the specification: an open file holds the snapshot of the dimension registry
  (letter to size) and the variables of the array store, each with its shape and its values
  in storage order.
\<close>

datatype error =
  OpenError | DimensionConflict | ShapeMismatch | MissingAttribute | MissingVariable
  | UnknownUnit | UnknownCoordinateSystem | IOError

record 'a variable =
  shape :: "nat list"
  contents :: "'a list"

record 'a open_file =
  resolved :: "char \<Rightarrow> nat option"
  store :: "string \<Rightarrow> 'a variable option"

text \<open>
  Modelled from the spec: \<open>readTyped(name, expectedElementCount)\<close> of the array store
  adapter yields the values of the variable, or \<open>IOError\<close>.
\<close>

definition readTyped :: "'a open_file \<Rightarrow> string \<Rightarrow> nat \<Rightarrow> error + 'a list" where
  "readTyped f name expected =
     (case store f name of
        None \<Rightarrow> Inl IOError
      | Some v \<Rightarrow> if length (contents v) = expected then Inr (contents v) else Inl IOError)"

text \<open>
  Modelled from the spec: the size the store reports for a variable is the product of the
  sizes of its shape.
\<close>

definition reported_size :: "'a variable \<Rightarrow> nat" where
  "reported_size v = prod_list (shape v)"

text \<open>
  Modelled from the spec: \<open>getFrequencyValues()\<close> yields a sequence of \<open>N\<close> doubles, read
  from the variable \<open>N\<close> of the file.
\<close>

definition getFrequencyValues :: "'a open_file \<Rightarrow> error + 'a list" where
  "getFrequencyValues f =
     (case resolved f (CHR ''N'') of
        None \<Rightarrow> Inl MissingVariable
      | Some n \<Rightarrow> readTyped f ''N'' n)"

text \<open>
  Modelled from the spec: \<open>getDataReal()\<close> and \<open>getDataImag()\<close> yield a buffer of logical
  shape \<open>[M, R, N]\<close>; a mismatch between the size the store reports and the resolved
  \<open>M * R * N\<close> is a \<open>ShapeMismatch\<close>.
\<close>

definition getData :: "'a open_file \<Rightarrow> string \<Rightarrow> error + 'a list" where
  "getData f name =
     (case (resolved f (CHR ''M''), resolved f (CHR ''R''), resolved f (CHR ''N'')) of
        (Some m, Some r, Some n) \<Rightarrow>
          (case store f name of
             None \<Rightarrow> Inl MissingVariable
           | Some v \<Rightarrow>
               if reported_size v \<noteq> m * r * n then Inl ShapeMismatch
               else readTyped f name (m * r * n))
      | _ \<Rightarrow> Inl MissingVariable)"

definition getDataReal :: "'a open_file \<Rightarrow> error + 'a list" where
  "getDataReal f = getData f ''Data.Real''"

definition getDataImag :: "'a open_file \<Rightarrow> error + 'a list" where
  "getDataImag f = getData f ''Data.Imag''"

text \<open>
  Modelled from the spec: \<open>getPositionValues(role)\<close>. The caller asks for 2D or for 3D
  access; when the rank of the variable in the file disagrees with the access asked for,
  the result is \<open>ShapeMismatch\<close>.
\<close>

datatype role = Listener | Source | Receiver | Emitter

datatype access = Access2D | Access3D

fun position_name :: "role \<Rightarrow> string" where
  "position_name Listener = ''ListenerPosition''"
| "position_name Source = ''SourcePosition''"
| "position_name Receiver = ''ReceiverPosition''"
| "position_name Emitter = ''EmitterPosition''"

fun rank_of :: "access \<Rightarrow> nat" where
  "rank_of Access2D = 2"
| "rank_of Access3D = 3"

definition getPositionValues :: "'a open_file \<Rightarrow> role \<Rightarrow> access \<Rightarrow> error + 'a list" where
  "getPositionValues f r requested =
     (case store f (position_name r) of
        None \<Rightarrow> Inl MissingVariable
      | Some v \<Rightarrow>
          if length (shape v) \<noteq> rank_of requested then Inl ShapeMismatch
          else readTyped f (position_name r) (reported_size v))"

text \<open>
  A file for examples: the registry resolves \<open>M\<close>, \<open>R\<close> and \<open>N\<close>, and the store holds the
  listed variables.
\<close>

definition example_file :: "nat \<Rightarrow> nat \<Rightarrow> nat \<Rightarrow> (string \<times> 'a variable) list \<Rightarrow> 'a open_file" where
  "example_file m r n vars =
     \<lparr> resolved = [CHR ''M'' \<mapsto> m, CHR ''R'' \<mapsto> r, CHR ''N'' \<mapsto> n], store = map_of vars \<rparr>"

section \<open>Properties of the flat indexing helpers\<close>

lemma spec_row_major_2D: "spec_row_major [d0, d1] [i, j] = d1 * i + j"
  by (simp add: spec_row_major_def numeral_2_eq_2 ac_simps)

lemma spec_row_major_3D: "spec_row_major [d0, d1, d2] [i, j, k] = d1 * d2 * i + d2 * j + k"
  by (simp add: spec_row_major_def numeral_3_eq_3 ac_simps)

lemma unat_array2DIndex:
  "unat (array2DIndex i j d0 d1) = (unat d1 * unat i + unat j) mod 2 ^ 64"
  by (simp add: array2DIndex_def unat_word_ariths mod_simps)

lemma unat_array3DIndex:
  "unat (array3DIndex i j k d0 d1 d2) =
     (unat d1 * unat d2 * unat i + unat d2 * unat j + unat k) mod 2 ^ 64"
  by (simp add: array3DIndex_def unat_word_ariths mod_simps)

text \<open>
  C1. For every shape and every index tuple, \<open>array3DIndex\<close> returns
  \<open>d1 * d2 * i + d2 * j + k\<close> and \<open>array2DIndex\<close> returns \<open>d1 * i + j\<close>, and both are the
  row-major formula of the specification for their rank. The arithmetic is that of
  \<^verbatim>\<open>unsigned long\<close>; read as natural numbers, the results are the formula modulo \<open>2 ^ 64\<close>.
\<close>

theorem array_index_is_row_major:
  "array3DIndex i j k d0 d1 d2 = d1 * d2 * i + d2 * j + k
   \<and> array2DIndex i j d0 d1 = d1 * i + j
   \<and> array3DIndex i j k d0 d1 d2 = spec_row_major [d0, d1, d2] [i, j, k]
   \<and> array2DIndex i j d0 d1 = spec_row_major [d0, d1] [i, j]
   \<and> unat (array3DIndex i j k d0 d1 d2) =
       spec_row_major [unat d0, unat d1, unat d2] [unat i, unat j, unat k] mod 2 ^ 64
   \<and> unat (array2DIndex i j d0 d1) =
       spec_row_major [unat d0, unat d1] [unat i, unat j] mod 2 ^ 64"
  by (simp add: spec_row_major_2D spec_row_major_3D unat_array2DIndex unat_array3DIndex)
    (simp add: array2DIndex_def array3DIndex_def)

text \<open>
  C8. The result of either helper does not depend on its first dimension-size parameter:
  two calls that differ only in \<open>dim1\<close> agree. So a first index at or beyond \<open>dim1\<close> is not
  detected; the helpers still return the index computed from the inner sizes, as for
  \<open>i = 5\<close> in a shape whose first size is \<open>2\<close>.
\<close>

theorem array_index_ignores_dim1:
  "array2DIndex i j dim1 dim2 = array2DIndex i j dim1' dim2
   \<and> array3DIndex i j k dim1 dim2 dim3 = array3DIndex i j k dim1' dim2 dim3
   \<and> array2DIndex 5 0 2 3 = 15
   \<and> array3DIndex 5 0 0 2 3 4 = 60"
  by (simp add: array2DIndex_def array3DIndex_def)

subsection \<open>Round trip\<close>

lemma nat_flat2_less:
  fixes i j d0 d1 :: nat
  assumes "i < d0" "j < d1"
  shows "d1 * i + j < d0 * d1"
proof -
  have "d1 * i + j < d1 * i + d1" using assms by simp
  also have "\<dots> = d1 * Suc i" by simp
  also have "\<dots> \<le> d1 * d0" using assms by (intro mult_le_mono2) simp
  finally show ?thesis by (simp add: mult.commute)
qed

lemma nat_flat3_less:
  fixes i j k d0 d1 d2 :: nat
  assumes "i < d0" "j < d1" "k < d2"
  shows "d1 * d2 * i + d2 * j + k < d0 * d1 * d2"
proof -
  have a: "d1 * i + j < d0 * d1" using assms by (intro nat_flat2_less)
  have "d2 * (d1 * i + j) + k < (d0 * d1) * d2"
    using nat_flat2_less [OF a assms(3)] by simp
  then show ?thesis by (simp add: algebra_simps)
qed

lemma unat_array2DIndex_exact:
  assumes "unat d0 * unat d1 < 2 ^ 64" "i < d0" "j < d1"
  shows "unat (array2DIndex i j d0 d1) = unat d1 * unat i + unat j"
    and "unat (array2DIndex i j d0 d1) < unat d0 * unat d1"
proof -
  show "unat (array2DIndex i j d0 d1) = unat d1 * unat i + unat j"
    and "unat (array2DIndex i j d0 d1) < unat d0 * unat d1"
  proof -
    have b: "unat d1 * unat i + unat j < unat d0 * unat d1"
      using assms(2,3) by (intro nat_flat2_less) (simp_all add: word_less_nat_alt)
    then have "unat d1 * unat i + unat j < 2 ^ 64" using assms(1) by simp
    then show e: "unat (array2DIndex i j d0 d1) = unat d1 * unat i + unat j"
      by (simp add: unat_array2DIndex)
    show "unat (array2DIndex i j d0 d1) < unat d0 * unat d1"
      using b by (simp only: e)
  qed
qed

lemma unat_array3DIndex_exact:
  assumes "unat d0 * unat d1 * unat d2 < 2 ^ 64" "i < d0" "j < d1" "k < d2"
  shows "unat (array3DIndex i j k d0 d1 d2) = unat d1 * unat d2 * unat i + unat d2 * unat j + unat k"
    and "unat (array3DIndex i j k d0 d1 d2) < unat d0 * unat d1 * unat d2"
proof -
  have b: "unat d1 * unat d2 * unat i + unat d2 * unat j + unat k < unat d0 * unat d1 * unat d2"
    using assms(2-4) by (intro nat_flat3_less) (simp_all add: word_less_nat_alt)
  then have "unat d1 * unat d2 * unat i + unat d2 * unat j + unat k < 2 ^ 64"
    using assms(1) by simp
  then show e: "unat (array3DIndex i j k d0 d1 d2) =
      unat d1 * unat d2 * unat i + unat d2 * unat j + unat k"
    by (simp add: unat_array3DIndex)
  show "unat (array3DIndex i j k d0 d1 d2) < unat d0 * unat d1 * unat d2"
    using b by (simp only: e)
qed

lemma unflatten2D_array2DIndex:
  assumes "unat d0 * unat d1 < 2 ^ 64" "i < d0" "j < d1"
  shows "unflatten2D (array2DIndex i j d0 d1) d0 d1 = (i, j)"
proof -
  have j: "unat j < unat d1" using assms(3) by (simp add: word_less_nat_alt)
  have e: "unat (array2DIndex i j d0 d1) = unat d1 * unat i + unat j"
    using assms by (rule unat_array2DIndex_exact)
  have "unat (array2DIndex i j d0 d1 div d1) = unat i"
    using j by (simp add: unat_div e)
  moreover have "unat (array2DIndex i j d0 d1 mod d1) = unat j"
    using j by (simp add: unat_mod e)
  ultimately show ?thesis
    by (simp add: unflatten2D_def word_unat_eq_iff)
qed

lemma unflatten3D_array3DIndex:
  assumes "unat d0 * unat d1 * unat d2 < 2 ^ 64" "i < d0" "j < d1" "k < d2"
  shows "unflatten3D (array3DIndex i j k d0 d1 d2) d0 d1 d2 = (i, j, k)"
proof -
  have j: "unat j < unat d1" using assms(3) by (simp add: word_less_nat_alt)
  have k: "unat k < unat d2" using assms(4) by (simp add: word_less_nat_alt)
  have e: "unat (array3DIndex i j k d0 d1 d2) = unat d2 * (unat d1 * unat i + unat j) + unat k"
    using unat_array3DIndex_exact(1) [OF assms] by (simp add: algebra_simps)
  have r: "unat (array3DIndex i j k d0 d1 d2 div d2) = unat d1 * unat i + unat j"
    using k by (simp add: unat_div e)
  have "unat (array3DIndex i j k d0 d1 d2 div d2 div d1) = unat i"
    using j by (simp add: unat_div [of _ d1] r)
  moreover have "unat (array3DIndex i j k d0 d1 d2 div d2 mod d1) = unat j"
    using j by (simp add: unat_mod [of _ d1] r)
  moreover have "unat (array3DIndex i j k d0 d1 d2 mod d2) = unat k"
    using k by (simp add: unat_mod e)
  ultimately show ?thesis
    by (simp add: unflatten3D_def Let_def word_unat_eq_iff)
qed


lemma element_count_2: "element_count [d0, d1] = unat d0 * unat d1"
  by (simp add: element_count_def)

lemma element_count_3: "element_count [d0, d1, d2] = unat d0 * unat d1 * unat d2"
  by (simp add: element_count_def mult.assoc)

text \<open>
  C2 (as amended). For a shape of rank 2 or 3 whose element count \<open>d0 * ... * dn-1\<close> is
  below \<open>2 ^ 64\<close>, and every multi-index valid for it (each component below its dimension
  size, so every size is positive): decoding the flat index by successive division and
  modulo gives back the multi-index, the flat index is below the element count, and
  distinct valid multi-indices have distinct flat indices.
\<close>

theorem flatten_round_trip:
  "(element_count [d0, d1] < 2 ^ 64 \<and> valid2D i j d0 d1 \<longrightarrow>
      unflatten2D (array2DIndex i j d0 d1) d0 d1 = (i, j)
      \<and> unat (array2DIndex i j d0 d1) < element_count [d0, d1]
      \<and> (valid2D i' j' d0 d1 \<and> (i', j') \<noteq> (i, j) \<longrightarrow>
           array2DIndex i' j' d0 d1 \<noteq> array2DIndex i j d0 d1))
   \<and> (element_count [d0, d1, d2] < 2 ^ 64 \<and> valid3D i j k d0 d1 d2 \<longrightarrow>
      unflatten3D (array3DIndex i j k d0 d1 d2) d0 d1 d2 = (i, j, k)
      \<and> unat (array3DIndex i j k d0 d1 d2) < element_count [d0, d1, d2]
      \<and> (valid3D i' j' k' d0 d1 d2 \<and> (i', j', k') \<noteq> (i, j, k) \<longrightarrow>
           array3DIndex i' j' k' d0 d1 d2 \<noteq> array3DIndex i j k d0 d1 d2))"
proof (intro conjI impI)
  assume a: "element_count [d0, d1] < 2 ^ 64 \<and> valid2D i j d0 d1"
  then have n: "unat d0 * unat d1 < 2 ^ 64" and i: "i < d0" and j: "j < d1"
    by (simp_all add: element_count_2 valid2D_def)
  show rt: "unflatten2D (array2DIndex i j d0 d1) d0 d1 = (i, j)"
    using n i j by (rule unflatten2D_array2DIndex)
  show "unat (array2DIndex i j d0 d1) < element_count [d0, d1]"
    using unat_array2DIndex_exact(2) [OF n i j] by (simp add: element_count_2)
  assume b: "valid2D i' j' d0 d1 \<and> (i', j') \<noteq> (i, j)"
  then have "unflatten2D (array2DIndex i' j' d0 d1) d0 d1 = (i', j')"
    using n by (intro unflatten2D_array2DIndex) (simp_all add: valid2D_def)
  with rt b show "array2DIndex i' j' d0 d1 \<noteq> array2DIndex i j d0 d1"
    by metis
next
  assume a: "element_count [d0, d1, d2] < 2 ^ 64 \<and> valid3D i j k d0 d1 d2"
  then have n: "unat d0 * unat d1 * unat d2 < 2 ^ 64" and i: "i < d0" and j: "j < d1" and k: "k < d2"
    by (simp_all add: element_count_3 valid3D_def)
  show rt: "unflatten3D (array3DIndex i j k d0 d1 d2) d0 d1 d2 = (i, j, k)"
    using n i j k by (rule unflatten3D_array3DIndex)
  show "unat (array3DIndex i j k d0 d1 d2) < element_count [d0, d1, d2]"
    using unat_array3DIndex_exact(2) [OF n i j k] by (simp add: element_count_3)
  assume b: "valid3D i' j' k' d0 d1 d2 \<and> (i', j', k') \<noteq> (i, j, k)"
  then have "unflatten3D (array3DIndex i' j' k' d0 d1 d2) d0 d1 d2 = (i', j', k')"
    using n by (intro unflatten3D_array3DIndex) (simp_all add: valid3D_def)
  with rt b show "array3DIndex i' j' k' d0 d1 d2 \<noteq> array3DIndex i j k d0 d1 d2"
    by metis
qed

text \<open>The round trip at index \<open>(1, 2)\<close> of shape \<open>[2, 3]\<close> and \<open>(1, 2, 3)\<close> of \<open>[2, 3, 4]\<close>.\<close>

theorem flatten_round_trip_witness:
  "unflatten2D (array2DIndex 1 2 2 3) 2 3 = (1, 2)
   \<and> unat (array2DIndex 1 2 2 3) < element_count [2, 3]
   \<and> array2DIndex 0 2 2 3 \<noteq> array2DIndex 1 2 2 3
   \<and> unflatten3D (array3DIndex 1 2 3 2 3 4) 2 3 4 = (1, 2, 3)
   \<and> unat (array3DIndex 1 2 3 2 3 4) < element_count [2, 3, 4]
   \<and> array3DIndex 0 2 3 2 3 4 \<noteq> array3DIndex 1 2 3 2 3 4"
proof -
  have h2: "element_count [2, 3] < 2 ^ 64 \<and> valid2D 1 2 2 3 \<and> valid2D 0 2 2 3"
    by (simp add: element_count_def valid2D_def)
  have h3: "element_count [2, 3, 4] < 2 ^ 64 \<and> valid3D 1 2 3 2 3 4 \<and> valid3D 0 2 3 2 3 4"
    by (simp add: element_count_def valid3D_def)
  show ?thesis
    using flatten_round_trip [of 2 3 1 2 0 2 4 3 3] h2 h3 by simp
qed

text \<open>
  Without the bound on the element count the round trip fails: in the shape
  \<open>[2 ^ 32 + 1, 2 ^ 32]\<close> the valid index \<open>(2 ^ 32, 0)\<close> is sent to \<open>2 ^ 64\<close>, which wraps
  to \<open>0\<close>, the flat index of \<open>(0, 0)\<close>.
\<close>

theorem flatten_round_trip_counterexample:
  "0 < (4294967297 :: size_t) \<and> 0 < (4294967296 :: size_t)
   \<and> valid2D 4294967296 0 4294967297 4294967296
   \<and> valid2D 0 0 4294967297 4294967296
   \<and> unflatten2D (array2DIndex 4294967296 0 4294967297 4294967296) 4294967297 4294967296
       \<noteq> (4294967296, 0)
   \<and> array2DIndex 4294967296 0 4294967297 4294967296 = array2DIndex 0 0 4294967297 4294967296"
  by (simp add: valid2D_def unflatten2D_def array2DIndex_def)

section \<open>What the loops read\<close>

lemma unat_plus_1: "i < n \<Longrightarrow> unat (i + 1 :: size_t) = Suc (unat i)"
proof -
  assume "i < n"
  then have "unat i < unat n" by (simp add: word_less_nat_alt)
  then have "unat i + unat (1 :: size_t) < 2 ^ LENGTH(64)"
    using unsigned_less [of n, where ?'a = nat] by simp
  then show ?thesis using unat_add_lem [of i 1] by simp
qed

lemma loop_values_step: "i < n \<Longrightarrow> loop_values i n = i # loop_values (i + 1) n"
  by (simp add: loop_values_def unat_plus_1 word_less_nat_alt upt_conv_Cons)

lemma loop_values_done: "\<not> i < n \<Longrightarrow> loop_values i n = []"
  by (simp add: loop_values_def word_less_nat_alt)

lemma for_loop_append:
  assumes "\<And>j out. body j out = (if P j then Inr (out @ f j) else Inl e)"
  shows "for_loop i n body out =
     (if list_all P (loop_values i n) then Inr (out @ concat (map f (loop_values i n)))
      else Inl e)"
  using assms
proof (induction i n body out rule: for_loop.induct)
  case (1 i n body s)
  show ?case
  proof (cases "i < n")
    case False
    then show ?thesis by (simp add: loop_values_done for_loop.simps [of i n])
  next
    case True
    note lv = loop_values_step [OF True]
    show ?thesis
    proof (cases "P i")
      case False
      then show ?thesis using True "1.prems" by (simp add: lv for_loop.simps [of i n])
    next
      case Pi: True
      have b: "body i s = Inr (s @ f i)" using "1.prems" Pi by simp
      have "for_loop (i + 1) n body (s @ f i) =
        (if list_all P (loop_values (i + 1) n)
         then Inr ((s @ f i) @ concat (map f (loop_values (i + 1) n))) else Inl e)"
        using "1.IH" [OF True b] "1.prems" by blast
      then show ?thesis using True Pi b by (simp add: lv for_loop.simps [of i n])
    qed
  qed
qed

lemma print_at_eq:
  "print_at v index out =
     (if unat index < length v then Inr (out @ [Num (v ! unat index)]) else Inl OutOfRange)"
  by (simp add: print_at_def bind_def vec_at_def)

lemma for_loop_print_at:
  "for_loop 0 n (\<lambda>j. print_at v (g j)) out =
     (if in_bounds v (map g (loop_values 0 n)) then Inr (out @ printed v (map g (loop_values 0 n)))
      else Inl OutOfRange)"
proof -
  have "for_loop 0 n (\<lambda>j. print_at v (g j)) out =
     (if list_all (\<lambda>j. unat (g j) < length v) (loop_values 0 n)
      then Inr (out @ concat (map (\<lambda>j. [Num (v ! unat (g j))]) (loop_values 0 n)))
      else Inl OutOfRange)"
    by (rule for_loop_append) (simp add: print_at_eq)
  moreover have "concat (map (\<lambda>j. [Num (v ! unat (g j))]) xs) = printed v (map g xs)" for xs
    by (induction xs) (simp_all add: printed_def)
  ultimately show ?thesis
    by (simp add: in_bounds_def list_all_iff)
qed

lemma in_bounds_concat: "in_bounds v (concat xss) = list_all (in_bounds v) xss"
  by (induction xss) (simp_all add: in_bounds_def)

lemma printed_concat: "printed v (concat xss) = concat (map (printed v) xss)"
  by (induction xss) (simp_all add: printed_def)

lemma print_loop2D_eq:
  "print_loop2D pos d0 d1 out =
     (if in_bounds pos (reads2D d0 d1) then Inr (out @ printed pos (reads2D d0 d1))
      else Inl OutOfRange)"
proof -
  let ?row = "\<lambda>i. map (\<lambda>j. array2DIndex i j d0 d1) (loop_values 0 d1)"
  have "for_loop 0 d0 (\<lambda>i. for_loop 0 d1 (\<lambda>j. print_at pos (array2DIndex i j d0 d1))) out =
     (if list_all (\<lambda>i. in_bounds pos (?row i)) (loop_values 0 d0)
      then Inr (out @ concat (map (\<lambda>i. printed pos (?row i)) (loop_values 0 d0)))
      else Inl OutOfRange)"
    by (rule for_loop_append) (rule for_loop_print_at)
  then show ?thesis
    by (simp add: print_loop2D_def reads2D_def in_bounds_concat printed_concat
        list_all_iff comp_def)
qed

lemma print_loop3D_eq:
  "print_loop3D pos d0 d1 d2 out =
     (if in_bounds pos (reads3D d0 d1 d2) then Inr (out @ printed pos (reads3D d0 d1 d2))
      else Inl OutOfRange)"
proof -
  let ?row = "\<lambda>i j. map (\<lambda>k. array3DIndex i j k d0 d1 d2) (loop_values 0 d2)"
  let ?plane = "\<lambda>i. concat (map (?row i) (loop_values 0 d1))"
  have inner: "for_loop 0 d1 (\<lambda>j. for_loop 0 d2 (\<lambda>k. print_at pos (array3DIndex i j k d0 d1 d2))) out =
     (if in_bounds pos (?plane i) then Inr (out @ printed pos (?plane i)) else Inl OutOfRange)"
    for i out
  proof -
    have "for_loop 0 d1 (\<lambda>j. for_loop 0 d2 (\<lambda>k. print_at pos (array3DIndex i j k d0 d1 d2))) out =
     (if list_all (\<lambda>j. in_bounds pos (?row i j)) (loop_values 0 d1)
      then Inr (out @ concat (map (\<lambda>j. printed pos (?row i j)) (loop_values 0 d1)))
      else Inl OutOfRange)"
      by (rule for_loop_append) (rule for_loop_print_at)
    then show ?thesis
      by (simp add: in_bounds_concat printed_concat list_all_iff comp_def)
  qed
  have "for_loop 0 d0 (\<lambda>i. for_loop 0 d1 (\<lambda>j. for_loop 0 d2 (\<lambda>k.
          print_at pos (array3DIndex i j k d0 d1 d2)))) out =
     (if list_all (\<lambda>i. in_bounds pos (?plane i)) (loop_values 0 d0)
      then Inr (out @ concat (map (\<lambda>i. printed pos (?plane i)) (loop_values 0 d0)))
      else Inl OutOfRange)"
    by (rule for_loop_append) (rule inner)
  then show ?thesis
    by (simp add: print_loop3D_def reads3D_def in_bounds_concat printed_concat
        list_all_iff comp_def)
qed

subsection \<open>The indices of a loop nest, enumerated\<close>

lemma nat_rows_upt:
  fixes d0 d1 :: nat
  shows "concat (map (\<lambda>i. map (\<lambda>j. d1 * i + j) [0..<d1]) [0..<d0]) = [0..<d0 * d1]"
proof (induction d0)
  case 0
  show ?case by simp
next
  case (Suc d0)
  have "map (\<lambda>j. d1 * d0 + j) [0..<d1] = [d0 * d1..<d0 * d1 + d1]"
    using map_add_upt [of "d0 * d1" d1] by (simp add: add.commute mult.commute)
  moreover have "[0..<Suc d0 * d1] = [0..<d0 * d1] @ [d0 * d1..<d0 * d1 + d1]"
    using upt_add_eq_append [of 0 "d0 * d1" d1] by (simp add: add.commute)
  ultimately show ?case
    using Suc by (simp del: mult_Suc)
qed

lemma nat_planes_upt:
  fixes d0 d1 d2 :: nat
  shows "concat (map (\<lambda>i. concat (map (\<lambda>j. map (\<lambda>k. d1 * d2 * i + d2 * j + k) [0..<d2]) [0..<d1]))
            [0..<d0]) = [0..<d0 * d1 * d2]"
proof -
  have "concat (map (\<lambda>j. map (\<lambda>k. d1 * d2 * i + d2 * j + k) [0..<d2]) [0..<d1]) =
        map (\<lambda>x. d1 * d2 * i + x) [0..<d1 * d2]" for i
  proof -
    have "concat (map (\<lambda>j. map (\<lambda>k. d1 * d2 * i + d2 * j + k) [0..<d2]) [0..<d1]) =
          map (\<lambda>x. d1 * d2 * i + x) (concat (map (\<lambda>j. map (\<lambda>k. d2 * j + k) [0..<d2]) [0..<d1]))"
      by (simp add: map_concat comp_def add.assoc)
    then show ?thesis by (simp add: nat_rows_upt)
  qed
  then show ?thesis
    using nat_rows_upt [of "d1 * d2" d0] by (simp add: mult.assoc)
qed

lemma loop_values_0: "loop_values 0 n = map of_nat [0..<unat n]"
  by (simp add: loop_values_def)

lemma reads2D_upt: "reads2D d0 d1 = map of_nat [0..<unat d0 * unat d1]"
proof -
  have "array2DIndex (of_nat i) (of_nat j) d0 d1 = of_nat (unat d1 * i + j)" for i j
    by (simp add: array2DIndex_def)
  then have "reads2D d0 d1 =
      map of_nat (concat (map (\<lambda>i. map (\<lambda>j. unat d1 * i + j) [0..<unat d1]) [0..<unat d0]))"
    by (simp add: reads2D_def loop_values_0 map_concat comp_def)
  then show ?thesis by (simp only: nat_rows_upt)
qed

lemma reads3D_upt: "reads3D d0 d1 d2 = map of_nat [0..<unat d0 * unat d1 * unat d2]"
proof -
  have "array3DIndex (of_nat i) (of_nat j) (of_nat k) d0 d1 d2 =
          of_nat (unat d1 * unat d2 * i + unat d2 * j + k)" for i j k
    by (simp add: array3DIndex_def)
  then have "reads3D d0 d1 d2 =
      map of_nat (concat (map (\<lambda>i. concat (map (\<lambda>j.
         map (\<lambda>k. unat d1 * unat d2 * i + unat d2 * j + k) [0..<unat d2]) [0..<unat d1]))
           [0..<unat d0]))"
    by (simp add: reads3D_def loop_values_0 map_concat comp_def)
  then show ?thesis by (simp only: nat_planes_upt)
qed

subsection \<open>When the reads stay inside the vector\<close>

lemma unat_of_nat_less: "L < 2 ^ 64 \<Longrightarrow> unat (of_nat L :: size_t) = L"
  by (simp add: unat_of_nat)

lemma in_bounds_upt:
  assumes "length v < 2 ^ 64"
  shows "in_bounds v (map of_nat [0..<n]) = (n \<le> length v)"
proof
  assume a: "in_bounds v (map of_nat [0..<n])"
  show "n \<le> length v"
  proof (rule ccontr)
    assume "\<not> n \<le> length v"
    then have "length v < n" by simp
    then have "unat (of_nat (length v) :: size_t) < length v"
      using a by (simp add: in_bounds_def list_all_iff)
    then show False using assms by (simp add: unat_of_nat_less)
  qed
next
  assume b: "n \<le> length v"
  have "unat (of_nat L :: size_t) < length v" if "L < n" for L
  proof -
    have "unat (of_nat L :: size_t) \<le> L" by (simp add: unat_of_nat)
    then show ?thesis using that b by simp
  qed
  then show "in_bounds v (map of_nat [0..<n])"
    by (simp add: in_bounds_def list_all_iff)
qed

lemma printed_upt:
  assumes "n \<le> length v" "length v < 2 ^ 64"
  shows "printed v (map of_nat [0..<n]) = map Num (take n v)"
proof (rule nth_equalityI)
  show "length (printed v (map of_nat [0..<n])) = length (map Num (take n v))"
    using assms by (simp add: printed_def)
next
  fix L assume "L < length (printed v (map of_nat [0..<n]))"
  then have L: "L < n" by (simp add: printed_def)
  then have "L < 2 ^ 64" using assms by simp
  then show "printed v (map of_nat [0..<n]) ! L = map Num (take n v) ! L"
    using L assms by (simp add: printed_def unat_of_nat_less)
qed

lemma print_loop2D_result:
  assumes "length pos < 2 ^ 64"
  shows "print_loop2D pos d0 d1 out =
     (if unat d0 * unat d1 \<le> length pos
      then Inr (out @ map Num (take (unat d0 * unat d1) pos)) else Inl OutOfRange)"
  using assms by (simp add: print_loop2D_eq reads2D_upt in_bounds_upt printed_upt)

lemma print_loop3D_result:
  assumes "length pos < 2 ^ 64"
  shows "print_loop3D pos d0 d1 d2 out =
     (if unat d0 * unat d1 * unat d2 \<le> length pos
      then Inr (out @ map Num (take (unat d0 * unat d1 * unat d2) pos)) else Inl OutOfRange)"
  using assms by (simp add: print_loop3D_eq reads3D_upt in_bounds_upt printed_upt)

lemma for_loop_print_result:
  assumes "length v < 2 ^ 64"
  shows "for_loop 0 n (\<lambda>i. print_at v i) out =
     (if unat n \<le> length v then Inr (out @ map Num (take (unat n) v)) else Inl OutOfRange)"
  using assms for_loop_print_at [of n v "\<lambda>i. i" out]
  by (simp add: loop_values_0 in_bounds_upt printed_upt)

lemma length_resize: "resize lib n = Inr pos \<Longrightarrow> length pos = unat n"
  by (auto simp: resize_def split: if_splits)

lemma stored_through_length:
  "stored_through pos written = Inr pos' \<Longrightarrow> length pos' = length pos"
  by (auto simp: stored_through_def split: if_splits)

section \<open>The printing routines\<close>

lemma bind_Inr [simp]: "bind (Inr x) f = f x"
  by (simp add: bind_def)

lemma bind_Inl [simp]: "bind (Inl e) f = Inl e"
  by (simp add: bind_def)

lemma call_Inr [simp]: "call (Inr x) = Inr x"
  by (simp add: call_def)

lemma call_Inl [simp]: "call (Inl e) = Inl (Thrown e)"
  by (simp add: call_def)

lemma bind_eq_OutOfRange:
  "bind m f = Inl OutOfRange \<longleftrightarrow> m = Inl OutOfRange \<or> (\<exists>x. m = Inr x \<and> f x = Inl OutOfRange)"
  by (cases m) simp_all

lemma call_not_OutOfRange [simp]: "call r \<noteq> Inl OutOfRange"
  by (cases r) simp_all

lemma SOFA_ASSERT_not_OutOfRange [simp]: "SOFA_ASSERT c b \<noteq> Inl OutOfRange"
  by (simp add: SOFA_ASSERT_def)

lemma stored_through_not_OutOfRange [simp]: "stored_through pos w \<noteq> Inl OutOfRange"
  by (simp add: stored_through_def)

lemma unat_mult_2: "unat d0 * unat d1 < 2 ^ 64 \<Longrightarrow> unat (d0 * d1 :: size_t) = unat d0 * unat d1"
  using unat_mult_lem [of d0 d1] by simp

lemma unat_mult_3:
  assumes "unat d0 * unat d1 * unat d2 < 2 ^ 64"
  shows "unat (d0 * d1 * d2 :: size_t) = unat d0 * unat d1 * unat d2"
proof -
  have "unat (d0 * d1 * d2) = (unat d0 * unat d1 * unat d2) mod 2 ^ 64"
    by (simp add: unat_word_ariths mod_simps)
  then show ?thesis using assms by simp
qed

lemma resize_not_OutOfRange [simp]: "resize lib n \<noteq> Inl OutOfRange"
  by (simp add: resize_def)

lemma bind_eq_OutOfRangeD:
  "bind m f = Inl OutOfRange \<Longrightarrow> m \<noteq> Inl OutOfRange \<Longrightarrow> \<exists>x. m = Inr x \<and> f x = Inl OutOfRange"
  by (simp add: bind_eq_OutOfRange)

text \<open>The buffer and the loops of the two-index and of the three-index block.\<close>

lemma block2D_safe:
  assumes "unat d0 * unat d1 < 2 ^ 64"
  shows "bind (resize lib (d0 * d1)) (\<lambda>pos.
         bind (call (GetValues2D lib f name d0 d1)) (\<lambda>(_, written).
         bind (stored_through pos written) (\<lambda>pos. print_loop2D pos d0 d1 out)))
           \<noteq> Inl OutOfRange"
proof
  assume "bind (resize lib (d0 * d1)) (\<lambda>pos.
         bind (call (GetValues2D lib f name d0 d1)) (\<lambda>(_, written).
         bind (stored_through pos written) (\<lambda>pos. print_loop2D pos d0 d1 out)))
           = Inl OutOfRange"
  then obtain buffer b written pos where r: "resize lib (d0 * d1) = Inr buffer"
    and s: "stored_through buffer written = Inr pos"
    and l: "print_loop2D pos d0 d1 out = Inl OutOfRange"
    by (auto simp: bind_eq_OutOfRange)
  have "length pos = unat d0 * unat d1"
    using stored_through_length [OF s] length_resize [OF r] assms by (simp add: unat_mult_2)
  then show False using l assms by (simp add: print_loop2D_result)
qed

lemma block3D_safe:
  assumes "unat d0 * unat d1 * unat d2 < 2 ^ 64"
  shows "bind (resize lib (d0 * d1 * d2)) (\<lambda>pos.
         bind (call (GetValues3D lib f name d0 d1 d2)) (\<lambda>(_, written).
         bind (stored_through pos written) (\<lambda>pos. print_loop3D pos d0 d1 d2 out)))
           \<noteq> Inl OutOfRange"
proof
  assume "bind (resize lib (d0 * d1 * d2)) (\<lambda>pos.
         bind (call (GetValues3D lib f name d0 d1 d2)) (\<lambda>(_, written).
         bind (stored_through pos written) (\<lambda>pos. print_loop3D pos d0 d1 d2 out)))
           = Inl OutOfRange"
  then obtain buffer b written pos where r: "resize lib (d0 * d1 * d2) = Inr buffer"
    and s: "stored_through buffer written = Inr pos"
    and l: "print_loop3D pos d0 d1 d2 out = Inl OutOfRange"
    by (auto simp: bind_eq_OutOfRange)
  have "length pos = unat d0 * unat d1 * unat d2"
    using stored_through_length [OF s] length_resize [OF r] assms by (simp add: unat_mult_3)
  then show False using l assms by (simp add: print_loop3D_result)
qed

text \<open>What a buffer of \<open>count\<close> zeros holds after the library stored into it.\<close>

lemma stored_through_zeros:
  "stored_through (replicate count 0) written =
     (if length written \<le> count then Inr (written @ replicate (count - length written) 0)
      else Inl Overrun)"
  by (simp add: stored_through_def)

lemma block2D_result:
  assumes "unat d0 * unat d1 < 2 ^ 64" "GetValues2D lib f name d0 d1 = Inr (b, written)"
  shows "bind (resize lib (d0 * d1)) (\<lambda>pos.
         bind (call (GetValues2D lib f name d0 d1)) (\<lambda>(_, written).
         bind (stored_through pos written) (\<lambda>pos. print_loop2D pos d0 d1 out)))
           = block_result lib (unat d0 * unat d1) written out"
proof (cases "can_allocate lib (unat d0 * unat d1) \<and> length written \<le> unat d0 * unat d1")
  case False
  then show ?thesis
    using assms
    by (auto simp: resize_def unat_mult_2 block_result_def stored_through_zeros)
next
  case True
  let ?pos = "written @ replicate (unat d0 * unat d1 - length written) 0"
  have l: "length ?pos = unat d0 * unat d1" using True by simp
  have "print_loop2D ?pos d0 d1 out = Inr (out @ map Num ?pos)"
    using assms(1) l by (simp add: print_loop2D_result del: map_append)
  then show ?thesis
    using True assms
    by (simp add: resize_def unat_mult_2 block_result_def stored_through_zeros)
qed

lemma block3D_result:
  assumes "unat d0 * unat d1 * unat d2 < 2 ^ 64" "GetValues3D lib f name d0 d1 d2 = Inr (b, written)"
  shows "bind (resize lib (d0 * d1 * d2)) (\<lambda>pos.
         bind (call (GetValues3D lib f name d0 d1 d2)) (\<lambda>(_, written).
         bind (stored_through pos written) (\<lambda>pos. print_loop3D pos d0 d1 d2 out)))
           = block_result lib (unat d0 * unat d1 * unat d2) written out"
proof (cases "can_allocate lib (unat d0 * unat d1 * unat d2)
    \<and> length written \<le> unat d0 * unat d1 * unat d2")
  case False
  then show ?thesis
    using assms
    by (auto simp: resize_def unat_mult_3 block_result_def stored_through_zeros)
next
  case True
  let ?pos = "written @ replicate (unat d0 * unat d1 * unat d2 - length written) 0"
  have l: "length ?pos = unat d0 * unat d1 * unat d2" using True by simp
  have "print_loop3D ?pos d0 d1 d2 out = Inr (out @ map Num ?pos)"
    using assms(1) l by (simp add: print_loop3D_result del: map_append)
  then show ?thesis
    using True assms
    by (simp add: resize_def unat_mult_3 block_result_def stored_through_zeros)
qed

lemma length_2E: "length xs = 2 \<Longrightarrow> (\<And>a b. xs = [a, b] \<Longrightarrow> P) \<Longrightarrow> P"
  by (cases xs; cases "tl xs"; cases "tl (tl xs)") auto

lemma length_3E: "length xs = 3 \<Longrightarrow> (\<And>a b c. xs = [a, b, c] \<Longrightarrow> P) \<Longrightarrow> P"
  by (cases xs; cases "tl xs"; cases "tl (tl xs)"; cases "tl (tl (tl xs))") auto

lemma print_rank2_safe:
  assumes "dims_fit lib f name [2]"
  shows "print_rank2 lib checked f name out \<noteq> Inl OutOfRange"
proof (cases "GetVariableDimensions lib f name")
  case (Inl e)
  then show ?thesis
    by (auto simp: print_rank2_def bind_eq_OutOfRange)
next
  case (Inr dims)
  then have "length dims = 2" and fit: "element_count dims < 2 ^ 64"
    using assms by (simp_all add: dims_fit_def)
  then obtain d0 d1 where dims: "dims = [d0, d1]" by (auto elim: length_2E)
  have n: "unat d0 * unat d1 < 2 ^ 64" using fit by (simp add: dims element_count_2)
  show ?thesis
    using Inr block2D_safe [OF n, of lib f name out]
    by (auto simp: print_rank2_def bind_eq_OutOfRange dims vec_at_def)
qed

lemma print_rank2or3_safe:
  assumes "dims_fit lib f name [2, 3]"
  shows "print_rank2or3 lib checked f name out \<noteq> Inl OutOfRange"
proof (cases "GetVariableDimensions lib f name")
  case (Inl e)
  then show ?thesis
    by (auto simp: print_rank2or3_def bind_eq_OutOfRange)
next
  case (Inr dims)
  then have len: "length dims = 2 \<or> length dims = 3" and fit: "element_count dims < 2 ^ 64"
    using assms by (auto simp: dims_fit_def)
  from len show ?thesis
  proof
    assume "length dims = 2"
    then obtain d0 d1 where dims: "dims = [d0, d1]" by (auto elim: length_2E)
    have n: "unat d0 * unat d1 < 2 ^ 64" using fit by (simp add: dims element_count_2)
    show ?thesis
      using Inr block2D_safe [OF n, of lib f name out]
      by (auto simp: print_rank2or3_def bind_eq_OutOfRange dims vec_at_def)
  next
    assume "length dims = 3"
    then obtain d0 d1 d2 where dims: "dims = [d0, d1, d2]" by (auto elim: length_3E)
    have n: "unat d0 * unat d1 * unat d2 < 2 ^ 64" using fit by (simp add: dims element_count_3)
    show ?thesis
      using Inr block3D_safe [OF n, of lib f name out]
      by (auto simp: print_rank2or3_def bind_eq_OutOfRange dims vec_at_def)
  qed
qed

lemma reads2D_below:
  assumes "unat d0 * unat d1 < 2 ^ 64"
  shows "list_all (\<lambda>index. unat index < unat d0 * unat d1) (reads2D d0 d1)"
proof -
  have "unat (of_nat L :: size_t) < unat d0 * unat d1" if "L < unat d0 * unat d1" for L
    using that assms by (simp add: unat_of_nat_less)
  then show ?thesis by (simp add: reads2D_upt list_all_iff)
qed

lemma reads3D_below:
  assumes "unat d0 * unat d1 * unat d2 < 2 ^ 64"
  shows "list_all (\<lambda>index. unat index < unat d0 * unat d1 * unat d2) (reads3D d0 d1 d2)"
proof -
  have "unat (of_nat L :: size_t) < unat d0 * unat d1 * unat d2"
    if "L < unat d0 * unat d1 * unat d2" for L
    using that assms by (simp add: unat_of_nat_less)
  then show ?thesis by (simp add: reads3D_upt list_all_iff)
qed

lemma PrintListener_safe:
  assumes "dims_fit lib f ''ListenerPosition'' [2]" "dims_fit lib f ''ListenerView'' [2]"
    "dims_fit lib f ''ListenerUp'' [2]"
  shows "PrintListener lib checked f out \<noteq> Inl OutOfRange"
  using assms
  by (auto simp: PrintListener_def bind_eq_OutOfRange dest: print_rank2_safe [THEN notE])

lemma answers2D_D:
  assumes "answers2D lib checked f name d0 d1 written"
  obtains ok b where "GetPositionInfo lib f name = Inr ok" "ok \<or> \<not> checked"
    "GetVariableDimensions lib f name = Inr [d0, d1]"
    "GetValues2D lib f name d0 d1 = Inr (b, written)"
  using assms by (auto simp: answers2D_def split: sum.splits)

lemma answers3D_D:
  assumes "answers3D lib checked f name d0 d1 d2 written"
  obtains ok b where "GetPositionInfo lib f name = Inr ok" "ok \<or> \<not> checked"
    "GetVariableDimensions lib f name = Inr [d0, d1, d2]"
    "GetValues3D lib f name d0 d1 d2 = Inr (b, written)"
  using assms by (auto simp: answers3D_def split: sum.splits)

lemma print_rank2_result:
  assumes "answers2D lib checked f name d0 d1 written" "element_count [d0, d1] < 2 ^ 64"
  shows "print_rank2 lib checked f name out = block_result lib (element_count [d0, d1]) written out"
proof -
  from assms(1) obtain ok b where a: "GetPositionInfo lib f name = Inr ok" "ok \<or> \<not> checked"
    "GetVariableDimensions lib f name = Inr [d0, d1]"
    "GetValues2D lib f name d0 d1 = Inr (b, written)"
    by (rule answers2D_D)
  have n: "unat d0 * unat d1 < 2 ^ 64" using assms(2) by (simp add: element_count_2)
  have "print_rank2 lib checked f name out =
      bind (resize lib (d0 * d1)) (\<lambda>pos.
         bind (call (GetValues2D lib f name d0 d1)) (\<lambda>(_, written).
         bind (stored_through pos written) (\<lambda>pos. print_loop2D pos d0 d1 out)))"
    using a(1-3) by (auto simp: print_rank2_def SOFA_ASSERT_def vec_at_def)
  then show ?thesis
    using block2D_result [OF n a(4), of out] by (simp add: element_count_2)
qed

lemma print_rank2or3_result2:
  assumes "answers2D lib checked f name d0 d1 written" "element_count [d0, d1] < 2 ^ 64"
  shows "print_rank2or3 lib checked f name out
           = block_result lib (element_count [d0, d1]) written out"
proof -
  from assms(1) obtain ok b where a: "GetPositionInfo lib f name = Inr ok" "ok \<or> \<not> checked"
    "GetVariableDimensions lib f name = Inr [d0, d1]"
    "GetValues2D lib f name d0 d1 = Inr (b, written)"
    by (rule answers2D_D)
  have n: "unat d0 * unat d1 < 2 ^ 64" using assms(2) by (simp add: element_count_2)
  have "print_rank2or3 lib checked f name out =
      bind (resize lib (d0 * d1)) (\<lambda>pos.
         bind (call (GetValues2D lib f name d0 d1)) (\<lambda>(_, written).
         bind (stored_through pos written) (\<lambda>pos. print_loop2D pos d0 d1 out)))"
    using a(1-3) by (auto simp: print_rank2or3_def SOFA_ASSERT_def vec_at_def)
  then show ?thesis
    using block2D_result [OF n a(4), of out] by (simp add: element_count_2)
qed

lemma print_rank2or3_result3:
  assumes "answers3D lib checked f name d0 d1 d2 written" "element_count [d0, d1, d2] < 2 ^ 64"
  shows "print_rank2or3 lib checked f name out
           = block_result lib (element_count [d0, d1, d2]) written out"
proof -
  from assms(1) obtain ok b where a: "GetPositionInfo lib f name = Inr ok" "ok \<or> \<not> checked"
    "GetVariableDimensions lib f name = Inr [d0, d1, d2]"
    "GetValues3D lib f name d0 d1 d2 = Inr (b, written)"
    by (rule answers3D_D)
  have n: "unat d0 * unat d1 * unat d2 < 2 ^ 64" using assms(2) by (simp add: element_count_3)
  have "print_rank2or3 lib checked f name out =
      bind (resize lib (d0 * d1 * d2)) (\<lambda>pos.
         bind (call (GetValues3D lib f name d0 d1 d2)) (\<lambda>(_, written).
         bind (stored_through pos written) (\<lambda>pos. print_loop3D pos d0 d1 d2 out)))"
    using a(1-3) by (auto simp: print_rank2or3_def SOFA_ASSERT_def vec_at_def)
  then show ?thesis
    using block3D_result [OF n a(4), of out] by (simp add: element_count_3)
qed


text \<open>
  The example library reports one shape for every variable and stores the same values.
\<close>

lemma ex_fit:
  "dims_fit (example_library [2, 3] vs r e m n ok fr re im) () name [2]"
  "dims_fit (example_library [2, 3] vs r e m n ok fr re im) () name [2, 3]"
  by (simp_all add: dims_fit_def example_library_def element_count_def)

lemma ex_answers2D:
  "answers2D (example_library [da, db] vs r e m n ok fr re im) checked () name da db vs"
  by (simp add: answers2D_def example_library_def)

lemma ex_answers3D:
  "answers3D (example_library [da, db, dc] vs r e m n ok fr re im) checked () name da db dc vs"
  by (simp add: answers3D_def example_library_def)



lemma print_rank2or3_rank2:
  assumes "GetPositionInfo lib f name = Inr ok" "checked \<longrightarrow> ok"
    "GetVariableDimensions lib f name = Inr [d0, d1]"
    "resize lib (d0 * d1) = Inr buffer"
    "GetValues2D lib f name d0 d1 = Inr (b, written)"
    "stored_through buffer written = Inr pos"
  shows "print_rank2or3 lib checked f name out = print_loop2D pos d0 d1 out"
  using assms by (auto simp: print_rank2or3_def SOFA_ASSERT_def vec_at_def)

lemma print_rank2or3_rank3:
  assumes "GetPositionInfo lib f name = Inr ok" "checked \<longrightarrow> ok"
    "GetVariableDimensions lib f name = Inr [d0, d1, d2]"
    "resize lib (d0 * d1 * d2) = Inr buffer"
    "GetValues3D lib f name d0 d1 d2 = Inr (b, written)"
    "stored_through buffer written = Inr pos"
  shows "print_rank2or3 lib checked f name out = print_loop3D pos d0 d1 d2 out"
  using assms by (auto simp: print_rank2or3_def SOFA_ASSERT_def vec_at_def)

lemma getPositionValues_mismatch:
  "store file (position_name r) = Some v \<Longrightarrow> length (shape v) \<noteq> rank_of requested \<Longrightarrow>
     getPositionValues file r requested = Inl ShapeMismatch"
  by (simp add: getPositionValues_def)

text \<open>
  C4. \<open>PrintEmitter\<close> and \<open>PrintReceiver\<close> choose the access by the rank of the position
  variable. For rank 2 the buffer has \<open>dims[0] * dims[1]\<close> elements, is filled by the
  two-index accessor and is traversed with \<open>array2DIndex\<close>; for rank 3 it has
  \<open>dims[0] * dims[1] * dims[2]\<close> elements, is filled by the three-index accessor and is
  traversed with \<open>array3DIndex\<close>. Each traversal prints the elements at the indices of its
  loop nest, in loop order; these indices are \<open>0, 1, 2, ...\<close> up to the element count of the
  shape, each converted to \<^verbatim>\<open>std::size_t\<close>. The accessor of the specification answers a
  request for the rank the file does not have with \<open>ShapeMismatch\<close>.
\<close>

theorem position_access_by_rank:
  "(GetPositionInfo lib f name = Inr ok \<and> (checked \<longrightarrow> ok)
      \<and> GetVariableDimensions lib f name = Inr [d0, d1]
      \<and> resize lib (d0 * d1) = Inr buffer
      \<and> GetValues2D lib f name d0 d1 = Inr (b, written)
      \<and> stored_through buffer written = Inr pos
      \<longrightarrow> length pos = unat (d0 * d1)
          \<and> print_rank2or3 lib checked f name out = print_loop2D pos d0 d1 out)
   \<and> (GetPositionInfo lib f name = Inr ok \<and> (checked \<longrightarrow> ok)
      \<and> GetVariableDimensions lib f name = Inr [d0, d1, d2]
      \<and> resize lib (d0 * d1 * d2) = Inr buffer
      \<and> GetValues3D lib f name d0 d1 d2 = Inr (b, written)
      \<and> stored_through buffer written = Inr pos
      \<longrightarrow> length pos = unat (d0 * d1 * d2)
          \<and> print_rank2or3 lib checked f name out = print_loop3D pos d0 d1 d2 out)
   \<and> print_loop2D pos d0 d1 out =
       (if in_bounds pos (reads2D d0 d1) then Inr (out @ printed pos (reads2D d0 d1))
        else Inl OutOfRange)
   \<and> print_loop3D pos d0 d1 d2 out =
       (if in_bounds pos (reads3D d0 d1 d2) then Inr (out @ printed pos (reads3D d0 d1 d2))
        else Inl OutOfRange)
   \<and> reads2D d0 d1 = map of_nat [0..<element_count [d0, d1]]
   \<and> reads3D d0 d1 d2 = map of_nat [0..<element_count [d0, d1, d2]]
   \<and> PrintEmitter lib checked f out = print_rank2or3 lib checked f ''EmitterPosition'' out
   \<and> PrintReceiver lib checked f out = print_rank2or3 lib checked f ''ReceiverPosition'' out
   \<and> (store file (position_name r) = Some v \<and> length (shape v) \<noteq> rank_of requested \<longrightarrow>
        getPositionValues file r requested = Inl ShapeMismatch)"
proof (intro conjI impI)
  assume a: "GetPositionInfo lib f name = Inr ok \<and> (checked \<longrightarrow> ok)
      \<and> GetVariableDimensions lib f name = Inr [d0, d1]
      \<and> resize lib (d0 * d1) = Inr buffer
      \<and> GetValues2D lib f name d0 d1 = Inr (b, written)
      \<and> stored_through buffer written = Inr pos"
  then show "length pos = unat (d0 * d1)"
    using stored_through_length [of buffer written pos] length_resize [of lib "d0 * d1" buffer]
    by simp
  show "print_rank2or3 lib checked f name out = print_loop2D pos d0 d1 out"
    using a by (intro print_rank2or3_rank2 [of lib f name ok checked d0 d1 buffer b written]) simp_all
next
  assume a: "GetPositionInfo lib f name = Inr ok \<and> (checked \<longrightarrow> ok)
      \<and> GetVariableDimensions lib f name = Inr [d0, d1, d2]
      \<and> resize lib (d0 * d1 * d2) = Inr buffer
      \<and> GetValues3D lib f name d0 d1 d2 = Inr (b, written)
      \<and> stored_through buffer written = Inr pos"
  then show "length pos = unat (d0 * d1 * d2)"
    using stored_through_length [of buffer written pos]
      length_resize [of lib "d0 * d1 * d2" buffer]
    by simp
  show "print_rank2or3 lib checked f name out = print_loop3D pos d0 d1 d2 out"
    using a by (intro print_rank2or3_rank3 [of lib f name ok checked d0 d1 d2 buffer b written]) simp_all
next
  show "print_loop2D pos d0 d1 out =
       (if in_bounds pos (reads2D d0 d1) then Inr (out @ printed pos (reads2D d0 d1))
        else Inl OutOfRange)"
    by (rule print_loop2D_eq)
  show "print_loop3D pos d0 d1 d2 out =
       (if in_bounds pos (reads3D d0 d1 d2) then Inr (out @ printed pos (reads3D d0 d1 d2))
        else Inl OutOfRange)"
    by (rule print_loop3D_eq)
  show "reads2D d0 d1 = map of_nat [0..<element_count [d0, d1]]"
    by (simp add: reads2D_upt element_count_2)
  show "reads3D d0 d1 d2 = map of_nat [0..<element_count [d0, d1, d2]]"
    by (simp add: reads3D_upt element_count_3)
  show "PrintEmitter lib checked f out = print_rank2or3 lib checked f ''EmitterPosition'' out"
    by (simp add: PrintEmitter_def)
  show "PrintReceiver lib checked f out = print_rank2or3 lib checked f ''ReceiverPosition'' out"
    by (simp add: PrintReceiver_def)
next
  assume "store file (position_name r) = Some v \<and> length (shape v) \<noteq> rank_of requested"
  then show "getPositionValues file r requested = Inl ShapeMismatch"
    by (simp add: getPositionValues_mismatch)
qed

text \<open>
  A rank-2 emitter variable of shape \<open>[2, 3]\<close>, a rank-3 receiver variable of shape
  \<open>[2, 2, 2]\<close>, and a 2D request for a receiver variable of rank 3.
\<close>

theorem position_access_by_rank_witness:
  "PrintEmitter (example_library [2, 3] [1, 2, 3, 4, 5, 6 :: int] 1 1 1 1 True [] [] []) True () []
     = print_loop2D [1, 2, 3, 4, 5, 6] 2 3 []
   \<and> length [1, 2, 3, 4, 5, 6 :: int] = unat (2 * 3 :: size_t)
   \<and> print_loop2D [1, 2, 3, 4, 5, 6 :: int] 2 3 [] = Inr [Num 1, Num 2, Num 3, Num 4, Num 5, Num 6]
   \<and> PrintReceiver (example_library [2, 2, 2] [1, 2, 3, 4, 5, 6, 7, 8 :: int] 1 1 1 1 True [] [] [])
       True () [] = print_loop3D [1, 2, 3, 4, 5, 6, 7, 8] 2 2 2 []
   \<and> length [1, 2, 3, 4, 5, 6, 7, 8 :: int] = unat (2 * 2 * 2 :: size_t)
   \<and> print_loop3D [1, 2, 3, 4, 5, 6, 7, 8 :: int] 2 2 2 []
       = Inr [Num 1, Num 2, Num 3, Num 4, Num 5, Num 6, Num 7, Num 8]
   \<and> getPositionValues
        (example_file 1 2 1 [(''ReceiverPosition'', \<lparr>shape = [2, 3, 1], contents = [1, 2, 3, 4, 5, 6 :: int]\<rparr>)])
        Receiver Access2D = Inl ShapeMismatch"
proof -
  let ?L2 = "example_library [2, 3] [1, 2, 3, 4, 5, 6 :: int] 1 1 1 1 True [] [] []"
  let ?L3 = "example_library [2, 2, 2] [1, 2, 3, 4, 5, 6, 7, 8 :: int] 1 1 1 1 True [] [] []"
  let ?F = "example_file 1 2 1 [(''ReceiverPosition'', \<lparr>shape = [2, 3, 1], contents = [1, 2, 3, 4, 5, 6 :: int]\<rparr>)]"
  let ?v = "\<lparr>shape = [2, 3, 1], contents = [1, 2, 3, 4, 5, 6 :: int]\<rparr>"
  have r2: "resize ?L2 (2 * 3) = Inr [0, 0, 0, 0, 0, 0]"
    by code_simp
  have r3: "resize ?L3 (2 * 2 * 2) = Inr [0, 0, 0, 0, 0, 0, 0, 0]"
    by code_simp
  have h2: "GetPositionInfo ?L2 () ''EmitterPosition'' = Inr True \<and> (True \<longrightarrow> True)
      \<and> GetVariableDimensions ?L2 () ''EmitterPosition'' = Inr [2, 3]
      \<and> resize ?L2 (2 * 3) = Inr [0, 0, 0, 0, 0, 0]
      \<and> GetValues2D ?L2 () ''EmitterPosition'' 2 3 = Inr (True, [1, 2, 3, 4, 5, 6])
      \<and> stored_through [0, 0, 0, 0, 0, 0] [1, 2, 3, 4, 5, 6 :: int] = Inr [1, 2, 3, 4, 5, 6]"
    using r2 by (simp add: example_library_def stored_through_def)
  have h3: "GetPositionInfo ?L3 () ''ReceiverPosition'' = Inr True \<and> (True \<longrightarrow> True)
      \<and> GetVariableDimensions ?L3 () ''ReceiverPosition'' = Inr [2, 2, 2]
      \<and> resize ?L3 (2 * 2 * 2) = Inr [0, 0, 0, 0, 0, 0, 0, 0]
      \<and> GetValues3D ?L3 () ''ReceiverPosition'' 2 2 2 = Inr (True, [1, 2, 3, 4, 5, 6, 7, 8])
      \<and> stored_through [0, 0, 0, 0, 0, 0, 0, 0] [1, 2, 3, 4, 5, 6, 7, 8 :: int]
          = Inr [1, 2, 3, 4, 5, 6, 7, 8]"
    using r3 by (simp add: example_library_def stored_through_def)
  have hs: "store ?F (position_name Receiver) = Some ?v \<and> length (shape ?v) \<noteq> rank_of Access2D"
    by (simp add: example_file_def)
  have e2: "print_loop2D [1, 2, 3, 4, 5, 6 :: int] 2 3 [] = Inr [Num 1, Num 2, Num 3, Num 4, Num 5, Num 6]"
    by code_simp
  have e3: "print_loop3D [1, 2, 3, 4, 5, 6, 7, 8 :: int] 2 2 2 []
       = Inr [Num 1, Num 2, Num 3, Num 4, Num 5, Num 6, Num 7, Num 8]"
    by code_simp
  note t2 = position_access_by_rank [of ?L2 "()" "''EmitterPosition''" True True 2 3
      "[0, 0, 0, 0, 0, 0]" True "[1, 2, 3, 4, 5, 6]" "[1, 2, 3, 4, 5, 6]" "[]" 2 ?F Receiver ?v
      Access2D]
  note t3 = position_access_by_rank [of ?L3 "()" "''ReceiverPosition''" True True 2 2
      "[0, 0, 0, 0, 0, 0, 0, 0]" True "[1, 2, 3, 4, 5, 6, 7, 8]" "[1, 2, 3, 4, 5, 6, 7, 8]" "[]" 2
      ?F Receiver ?v Access2D]
  have a: "PrintEmitter ?L2 True () [] = print_loop2D [1, 2, 3, 4, 5, 6] 2 3 []
      \<and> length [1, 2, 3, 4, 5, 6 :: int] = unat (2 * 3 :: size_t)"
    using t2 h2 by metis
  have b: "PrintReceiver ?L3 True () [] = print_loop3D [1, 2, 3, 4, 5, 6, 7, 8] 2 2 2 []
      \<and> length [1, 2, 3, 4, 5, 6, 7, 8 :: int] = unat (2 * 2 * 2 :: size_t)"
    using t3 h3 by metis
  have c: "getPositionValues ?F Receiver Access2D = Inl ShapeMismatch"
    using t2 hs by metis
  show ?thesis using a b c e2 e3 by simp
qed

section \<open>main\<close>

lemma unat_to_size_t: "unat (to_size_t x) = unat x"
proof -
  have "unat x < 2 ^ 32" using unsigned_less [of x, where ?'a = nat] by simp
  then have "unat x < 2 ^ 64" by simp
  then show ?thesis
    by (simp add: to_size_t_def unsigned_ucast_eq take_bit_nat_eq_self)
qed

text \<open>
  C10. \<open>main\<close> drops the \<^verbatim>\<open>bool\<close> results of \<open>GetFrequencyValues\<close>, \<open>GetDataReal\<close> and
  \<open>GetDataImag\<close> and indexes the vectors at \<open>0 .. N - 1\<close> and \<open>0 .. M * R * N - 1\<close>
  whatever they were. When the three calls return (a vector holds fewer than \<open>2 ^ 64\<close>
  elements), the reads stay inside the vectors exactly when the vectors are at least that
  long; otherwise a read is out of range.
\<close>

theorem main_reads_data_unconditionally:
  "GetFrequencyValues lib d = Inr (ok1, frequencies)
   \<and> GetDataReal lib d = Inr (ok2, data_real)
   \<and> GetDataImag lib d = Inr (ok3, data_imag)
   \<and> length frequencies < 2 ^ 64 \<and> length data_real < 2 ^ 64 \<and> length data_imag < 2 ^ 64
   \<longrightarrow>
   print_data lib d M R N out =
     (if unat N \<le> length frequencies
         \<and> unat M * unat R * unat N \<le> length data_real
         \<and> unat M * unat R * unat N \<le> length data_imag
      then Inr (out @ map Num (take (unat N) frequencies)
                  @ map Num (take (unat M * unat R * unat N) data_real)
                  @ map Num (take (unat M * unat R * unat N) data_imag))
      else Inl OutOfRange)"
proof
  assume a: "GetFrequencyValues lib d = Inr (ok1, frequencies)
   \<and> GetDataReal lib d = Inr (ok2, data_real)
   \<and> GetDataImag lib d = Inr (ok3, data_imag)
   \<and> length frequencies < 2 ^ 64 \<and> length data_real < 2 ^ 64 \<and> length data_imag < 2 ^ 64"
  have f: "for_loop 0 (to_size_t N) (\<lambda>i. print_at frequencies i) out =
     (if unat N \<le> length frequencies then Inr (out @ map Num (take (unat N) frequencies))
      else Inl OutOfRange)"
    using a by (simp add: for_loop_print_result unat_to_size_t)
  have r: "print_loop3D data_real (to_size_t M) (to_size_t R) (to_size_t N) out' =
     (if unat M * unat R * unat N \<le> length data_real
      then Inr (out' @ map Num (take (unat M * unat R * unat N) data_real)) else Inl OutOfRange)"
    for out'
    using a by (simp add: print_loop3D_result unat_to_size_t)
  have i: "print_loop3D data_imag (to_size_t M) (to_size_t R) (to_size_t N) out' =
     (if unat M * unat R * unat N \<le> length data_imag
      then Inr (out' @ map Num (take (unat M * unat R * unat N) data_imag)) else Inl OutOfRange)"
    for out'
    using a by (simp add: print_loop3D_result unat_to_size_t)
  show "print_data lib d M R N out =
     (if unat N \<le> length frequencies
         \<and> unat M * unat R * unat N \<le> length data_real
         \<and> unat M * unat R * unat N \<le> length data_imag
      then Inr (out @ map Num (take (unat N) frequencies)
                  @ map Num (take (unat M * unat R * unat N) data_real)
                  @ map Num (take (unat M * unat R * unat N) data_imag))
      else Inl OutOfRange)"
    using a by (simp add: print_data_def f r i)
qed

text \<open>
  Calls that report failure but fill the vectors; a short frequency vector; a short
  \<open>Data.Real\<close> vector; and the same through \<open>main\<close>, where a failed read that leaves the
  vectors empty ends in an out-of-range read.
\<close>

theorem main_reads_data_unconditionally_witness:
  "print_data (example_library [1, 1] [0] 1 1 1 2 False [10, 20 :: int] [1, 2] [3, 4]) () 1 1 2 []
     = Inr [Num 10, Num 20, Num 1, Num 2, Num 3, Num 4]
   \<and> print_data (example_library [1, 1] [0] 1 1 1 2 False [10 :: int] [1, 2] [3, 4]) () 1 1 2 []
     = Inl OutOfRange
   \<and> print_data (example_library [1, 1] [0] 1 1 1 2 True [10, 20 :: int] [1] [3, 4]) () 1 1 2 []
     = Inl OutOfRange
   \<and> main (example_library [1, 1] [0] 1 1 1 2 False [10, 20 :: int] [1, 2] [3, 4]) True
        [''sofainfo'', ''file.sofa'']
     = Returned 0 [Num 0, Num 0, Num 10, Num 20, Num 1, Num 2, Num 3, Num 4]
   \<and> main (example_library [1, 1] [0] 1 1 1 2 False ([] :: int list) [] []) True
        [''sofainfo'', ''file.sofa'']
     = Broken OutOfRange"
proof -
  let ?A = "example_library [1, 1] [0] 1 1 1 2 False [10, 20 :: int] [1, 2] [3, 4]"
  let ?B = "example_library [1, 1] [0] 1 1 1 2 False [10 :: int] [1, 2] [3, 4]"
  let ?C = "example_library [1, 1] [0] 1 1 1 2 True [10, 20 :: int] [1] [3, 4]"
  have hA: "GetFrequencyValues ?A () = Inr (False, [10, 20]) \<and> GetDataReal ?A () = Inr (False, [1, 2])
     \<and> GetDataImag ?A () = Inr (False, [3, 4])
     \<and> length [10, 20 :: int] < 2 ^ 64 \<and> length [1, 2 :: int] < 2 ^ 64 \<and> length [3, 4 :: int] < 2 ^ 64"
    by (simp add: example_library_def)
  have hB: "GetFrequencyValues ?B () = Inr (False, [10]) \<and> GetDataReal ?B () = Inr (False, [1, 2])
     \<and> GetDataImag ?B () = Inr (False, [3, 4])
     \<and> length [10 :: int] < 2 ^ 64 \<and> length [1, 2 :: int] < 2 ^ 64 \<and> length [3, 4 :: int] < 2 ^ 64"
    by (simp add: example_library_def)
  have hC: "GetFrequencyValues ?C () = Inr (True, [10, 20]) \<and> GetDataReal ?C () = Inr (True, [1])
     \<and> GetDataImag ?C () = Inr (True, [3, 4])
     \<and> length [10, 20 :: int] < 2 ^ 64 \<and> length [1 :: int] < 2 ^ 64 \<and> length [3, 4 :: int] < 2 ^ 64"
    by (simp add: example_library_def)
  have a: "print_data ?A () 1 1 2 [] = Inr [Num 10, Num 20, Num 1, Num 2, Num 3, Num 4]"
    using main_reads_data_unconditionally [of ?A "()" False "[10, 20]" False "[1, 2]" False "[3, 4]" 1 1 2 "[]"] hA
    by simp
  have b: "print_data ?B () 1 1 2 [] = Inl OutOfRange"
    using main_reads_data_unconditionally [of ?B "()" False "[10]" False "[1, 2]" False "[3, 4]" 1 1 2 "[]"] hB
    by simp
  have c: "print_data ?C () 1 1 2 [] = Inl OutOfRange"
    using main_reads_data_unconditionally [of ?C "()" True "[10, 20]" True "[1]" True "[3, 4]" 1 1 2 "[]"] hC
    by simp
  have m1: "main ?A True [''sofainfo'', ''file.sofa'']
     = Returned 0 [Num 0, Num 0, Num 10, Num 20, Num 1, Num 2, Num 3, Num 4]"
    by code_simp
  have m2: "main (example_library [1, 1] [0] 1 1 1 2 False ([] :: int list) [] []) True
        [''sofainfo'', ''file.sofa''] = Broken OutOfRange"
    by code_simp
  show ?thesis using a b c m1 m2 by simp
qed

lemma bind_eq_Inr: "bind m f = Inr y \<longleftrightarrow> (\<exists>x. m = Inr x \<and> f x = Inr y)"
  by (cases m) simp_all

lemma main_try_code:
  assumes "main_try lib checked filename = Inr (code, out)"
  shows "code = 0"
  using assms
  by (auto simp: main_try_def bind_eq_Inr split: if_splits)

lemma main_outside_two: "length argv \<noteq> 2 \<Longrightarrow> main lib checked argv = Returned 0 DisplayHelp"
  by (simp add: main_def)

lemma main_help: "length argv = 2 \<Longrightarrow> is_help_flag (argv ! 1) \<Longrightarrow> main lib checked argv = Returned 0 DisplayHelp"
  by (simp add: main_def)

lemma main_Returned:
  assumes "main lib checked argv = Returned code out"
  shows "code = 0"
proof (cases "length argv = 2 \<and> \<not> is_help_flag (argv ! 1)")
  case False
  then show ?thesis using assms by (auto simp: main_def split: if_splits)
next
  case True
  then obtain c out' where "main_try lib checked (argv ! 1) = Inr (c, out')" "code = c"
    using assms by (auto simp: main_def split: sum.splits stop.splits)
  then show ?thesis using main_try_code by metis
qed

lemma main_Exited:
  assumes "main lib checked argv = Exited code"
  shows "code = 1"
  using assms by (auto simp: main_def split: if_splits sum.splits stop.splits)

lemma main_thrown:
  assumes "length argv = 2" "\<not> is_help_flag (argv ! 1)"
    "main_try lib checked (argv ! 1) = Inl (Thrown e)"
  shows "main lib checked argv = Exited 1"
  using assms by (simp add: main_def)

lemma main_try_open_fails:
  "OpenFile lib filename = Inl e \<Longrightarrow> main_try lib checked filename = Inl (Thrown e)"
  by (simp add: main_try_def)

text \<open>
  The calls of \<open>main\<close> in their order: what each outcome leads to.
\<close>

lemma main_tree:
  "(length argv = 2 \<and> \<not> is_help_flag (argv ! 1) \<longrightarrow>
        (OpenFile lib (argv ! 1) = Inl e \<longrightarrow> main lib checked argv = Exited 1)
        \<and> (OpenFile lib (argv ! 1) = Inr f \<longrightarrow>
        (IsValid lib f = Inl e \<longrightarrow> main lib checked argv = Exited 1)
        \<and> (IsValid lib f = Inr False \<longrightarrow> main lib checked argv = Returned 0 [])
        \<and> (IsValid lib f = Inr True \<longrightarrow>
        (PrintAllAttributes lib f = Inl e \<longrightarrow> main lib checked argv = Exited 1)
        \<and> (PrintAllAttributes lib f = Inr () \<longrightarrow>
        (PrintSOFADimensions lib f = Inl e \<longrightarrow> main lib checked argv = Exited 1)
        \<and> (PrintSOFADimensions lib f = Inr () \<longrightarrow>
        (GetAttributeValueAsString lib f ''DataType'' = Inl e \<longrightarrow>
           main lib checked argv = Exited 1)
        \<and> (GetAttributeValueAsString lib f ''DataType'' = Inr dataType \<longrightarrow>
        (OpenDirectivity lib (argv ! 1) = Inl e \<longrightarrow> main lib checked argv = Exited 1)
        \<and> (OpenDirectivity lib (argv ! 1) = Inr d \<longrightarrow>
        (IsValidDirectivity lib d = Inl e \<longrightarrow> main lib checked argv = Exited 1)
        \<and> (IsValidDirectivity lib d = Inr False \<longrightarrow> main lib checked argv = Returned 0 [])
        \<and> (IsValidDirectivity lib d = Inr True \<longrightarrow>
        (GetNumReceivers lib d = Inl e \<longrightarrow> main lib checked argv = Exited 1)
        \<and> (GetNumReceivers lib d = Inr r \<longrightarrow>
        (GetNumEmitters lib d = Inl e \<longrightarrow> main lib checked argv = Exited 1)
        \<and> (GetNumEmitters lib d = Inr em \<longrightarrow>
        (GetNumMeasurements lib d = Inl e \<longrightarrow> main lib checked argv = Exited 1)
        \<and> (GetNumMeasurements lib d = Inr m \<longrightarrow>
        (GetNumDataSamples lib d = Inl e \<longrightarrow> main lib checked argv = Exited 1)
        \<and> (GetNumDataSamples lib d = Inr n \<longrightarrow>
        (PrintReceiver lib checked f [] = Inl (Thrown e) \<longrightarrow> main lib checked argv = Exited 1)
        \<and> (PrintReceiver lib checked f [] = Inr out_r \<longrightarrow>
        (PrintEmitter lib checked f out_r = Inl (Thrown e) \<longrightarrow> main lib checked argv = Exited 1)
        \<and> (PrintEmitter lib checked f out_r = Inr out_e \<longrightarrow>
        (print_data lib d (to_unsigned_int m) (to_unsigned_int r) (to_unsigned_int n) out_e
           = Inl (Thrown e) \<longrightarrow> main lib checked argv = Exited 1)
        \<and> (print_data lib d (to_unsigned_int m) (to_unsigned_int r) (to_unsigned_int n) out_e
           = Inr out_d \<longrightarrow>
        main lib checked argv = Returned 0 out_d)))))))))))))))"
  by (intro conjI impI; simp add: main_def main_try_def)

lemma print_rank2or3_throws:
  "(GetPositionInfo lib f name = Inl e \<longrightarrow>
        print_rank2or3 lib checked f name out = Inl (Thrown e))"
  "(GetPositionInfo lib f name = Inr ok \<and> (ok \<or> \<not> checked) \<longrightarrow>
       (GetVariableDimensions lib f name = Inl e \<longrightarrow>
             print_rank2or3 lib checked f name out = Inl (Thrown e))
       \<and> (GetVariableDimensions lib f name = Inr [da, db] \<longrightarrow>
            (\<not> can_allocate lib (unat (da * db)) \<longrightarrow>
                  print_rank2or3 lib checked f name out = Inl (Thrown StdException))
            \<and> (can_allocate lib (unat (da * db)) \<and> GetValues2D lib f name da db = Inl e \<longrightarrow>
                 print_rank2or3 lib checked f name out = Inl (Thrown e)))
       \<and> (GetVariableDimensions lib f name = Inr [da, db, dc] \<longrightarrow>
            (\<not> can_allocate lib (unat (da * db * dc)) \<longrightarrow>
                  print_rank2or3 lib checked f name out = Inl (Thrown StdException))
            \<and> (can_allocate lib (unat (da * db * dc)) \<and> GetValues3D lib f name da db dc = Inl e
                 \<longrightarrow> print_rank2or3 lib checked f name out = Inl (Thrown e))))"
  "PrintReceiver lib checked f out = print_rank2or3 lib checked f ''ReceiverPosition'' out"
  "PrintEmitter lib checked f out = print_rank2or3 lib checked f ''EmitterPosition'' out"
  by (auto simp: print_rank2or3_def PrintReceiver_def PrintEmitter_def SOFA_ASSERT_def vec_at_def
        resize_def)

lemma print_data_throws:
  "(GetFrequencyValues lib d = Inl e \<longrightarrow> print_data lib d M R N out = Inl (Thrown e))"
  "(GetFrequencyValues lib d = Inr (okf, frequencies) \<and> length frequencies < 2 ^ 64
        \<and> unat N \<le> length frequencies \<longrightarrow>
       (GetDataReal lib d = Inl e \<longrightarrow> print_data lib d M R N out = Inl (Thrown e))
       \<and> (GetDataReal lib d = Inr (okr, data_real) \<and> length data_real < 2 ^ 64
             \<and> unat M * unat R * unat N \<le> length data_real \<and> GetDataImag lib d = Inl e \<longrightarrow>
            print_data lib d M R N out = Inl (Thrown e)))"
  by (auto simp: print_data_def for_loop_print_result print_loop3D_result unat_to_size_t)



section \<open>The accessors of the specification\<close>

lemma readTyped_Inr:
  "readTyped f name expected = Inr xs \<longleftrightarrow>
     map_option contents (store f name) = Some xs \<and> length xs = expected"
  by (auto simp: readTyped_def split: option.splits)

lemma getData_Inr:
  assumes "resolved f (CHR ''M'') = Some m" "resolved f (CHR ''R'') = Some r"
    "resolved f (CHR ''N'') = Some n" "getData f name = Inr buf"
  shows "length buf = m * r * n" and "map_option contents (store f name) = Some buf"
  using assms by (auto simp: getData_def readTyped_Inr split: option.splits if_splits)

lemma getData_mismatch:
  assumes "resolved f (CHR ''M'') = Some m" "resolved f (CHR ''R'') = Some r"
    "resolved f (CHR ''N'') = Some n" "store f name = Some v" "reported_size v \<noteq> m * r * n"
  shows "getData f name = Inl ShapeMismatch"
  using assms by (simp add: getData_def)

text \<open>
  C3. With \<open>M\<close>, \<open>R\<close> and \<open>N\<close> resolved, a buffer returned by \<open>getDataReal\<close> or
  \<open>getDataImag\<close> has exactly \<open>M * R * N\<close> elements and is the stored variable, unchanged.
  When the size the store reports for the variable differs from \<open>M * R * N\<close>, the access
  fails with \<open>ShapeMismatch\<close> and yields no buffer; when it agrees, the buffer is returned.
\<close>

theorem data_buffer_length:
  "resolved f (CHR ''M'') = Some m \<and> resolved f (CHR ''R'') = Some r
   \<and> resolved f (CHR ''N'') = Some n \<longrightarrow>
     (getDataReal f = Inr buf \<longrightarrow>
        length buf = m * r * n \<and> map_option contents (store f ''Data.Real'') = Some buf)
   \<and> (getDataImag f = Inr buf \<longrightarrow>
        length buf = m * r * n \<and> map_option contents (store f ''Data.Imag'') = Some buf)
   \<and> (store f ''Data.Real'' = Some v \<and> reported_size v \<noteq> m * r * n \<longrightarrow>
        getDataReal f = Inl ShapeMismatch)
   \<and> (store f ''Data.Imag'' = Some v \<and> reported_size v \<noteq> m * r * n \<longrightarrow>
        getDataImag f = Inl ShapeMismatch)
   \<and> (store f ''Data.Real'' = Some v \<and> reported_size v = m * r * n
        \<and> length (contents v) = m * r * n \<longrightarrow> getDataReal f = Inr (contents v))
   \<and> (store f ''Data.Imag'' = Some v \<and> reported_size v = m * r * n
        \<and> length (contents v) = m * r * n \<longrightarrow> getDataImag f = Inr (contents v))"
proof (intro impI conjI)
  assume d: "resolved f (CHR ''M'') = Some m \<and> resolved f (CHR ''R'') = Some r
   \<and> resolved f (CHR ''N'') = Some n"
  {
    assume "getDataReal f = Inr buf"
    then have g: "getData f ''Data.Real'' = Inr buf" by (simp add: getDataReal_def)
    show "length buf = m * r * n"
      using d g by (intro getData_Inr(1) [of f m r n "''Data.Real''"]) simp_all
    show "map_option contents (store f ''Data.Real'') = Some buf"
      using d g by (intro getData_Inr(2) [of f m r n "''Data.Real''"]) simp_all
  }
  {
    assume "getDataImag f = Inr buf"
    then have g: "getData f ''Data.Imag'' = Inr buf" by (simp add: getDataImag_def)
    show "length buf = m * r * n"
      using d g by (intro getData_Inr(1) [of f m r n "''Data.Imag''"]) simp_all
    show "map_option contents (store f ''Data.Imag'') = Some buf"
      using d g by (intro getData_Inr(2) [of f m r n "''Data.Imag''"]) simp_all
  }
  {
    assume "store f ''Data.Real'' = Some v \<and> reported_size v \<noteq> m * r * n"
    then show "getDataReal f = Inl ShapeMismatch"
      using d by (simp add: getDataReal_def getData_mismatch)
  }
  {
    assume "store f ''Data.Imag'' = Some v \<and> reported_size v \<noteq> m * r * n"
    then show "getDataImag f = Inl ShapeMismatch"
      using d by (simp add: getDataImag_def getData_mismatch)
  }
  {
    assume "store f ''Data.Real'' = Some v \<and> reported_size v = m * r * n
        \<and> length (contents v) = m * r * n"
    then show "getDataReal f = Inr (contents v)"
      using d by (simp add: getDataReal_def getData_def readTyped_def)
  }
  {
    assume "store f ''Data.Imag'' = Some v \<and> reported_size v = m * r * n
        \<and> length (contents v) = m * r * n"
    then show "getDataImag f = Inr (contents v)"
      using d by (simp add: getDataImag_def getData_def readTyped_def)
  }
qed

text \<open>
  A file with \<open>M = 1\<close>, \<open>R = 2\<close>, \<open>N = 3\<close> whose \<open>Data.Real\<close> has six values and whose
  \<open>Data.Imag\<close> has shape \<open>[1, 2, 2]\<close>.
\<close>

theorem data_buffer_length_witness:
  "getDataReal (example_file 1 2 3
      [(''Data.Real'', \<lparr>shape = [1, 2, 3], contents = [1, 2, 3, 4, 5, 6 :: int]\<rparr>),
       (''Data.Imag'', \<lparr>shape = [1, 2, 2], contents = [1, 2, 3, 4]\<rparr>)])
     = Inr [1, 2, 3, 4, 5, 6]
   \<and> length [1, 2, 3, 4, 5, 6 :: int] = 1 * 2 * 3
   \<and> getDataImag (example_file 1 2 3
      [(''Data.Real'', \<lparr>shape = [1, 2, 3], contents = [1, 2, 3, 4, 5, 6 :: int]\<rparr>),
       (''Data.Imag'', \<lparr>shape = [1, 2, 2], contents = [1, 2, 3, 4]\<rparr>)])
     = Inl ShapeMismatch"
proof -
  let ?re = "\<lparr>shape = [1, 2, 3], contents = [1, 2, 3, 4, 5, 6 :: int]\<rparr>"
  let ?im = "\<lparr>shape = [1, 2, 2], contents = [1, 2, 3, 4 :: int]\<rparr>"
  let ?F = "example_file 1 2 3 [(''Data.Real'', ?re), (''Data.Imag'', ?im)]"
  have d: "resolved ?F (CHR ''M'') = Some 1 \<and> resolved ?F (CHR ''R'') = Some 2
     \<and> resolved ?F (CHR ''N'') = Some 3"
    by (simp add: example_file_def)
  have re: "store ?F ''Data.Real'' = Some ?re \<and> reported_size ?re = 1 * 2 * 3
     \<and> length (contents ?re) = 1 * 2 * 3"
    by (simp add: example_file_def reported_size_def)
  have im: "store ?F ''Data.Imag'' = Some ?im \<and> reported_size ?im \<noteq> 1 * 2 * 3"
    by (simp add: example_file_def reported_size_def)
  have a: "getDataReal ?F = Inr (contents ?re)"
    using data_buffer_length [of ?F 1 2 3 "contents ?re" ?re] d re by blast
  have b: "getDataImag ?F = Inl ShapeMismatch"
    using data_buffer_length [of ?F 1 2 3 "contents ?re" ?im] d im by blast
  show ?thesis using a b by simp
qed

text \<open>
  C6. For a file whose dimension \<open>N\<close> resolves to \<open>n\<close>, what \<open>getFrequencyValues\<close> returns
  has exactly \<open>n\<close> elements and is the content of the variable \<open>N\<close>, in storage order and
  unchanged; it is returned whenever that variable holds \<open>n\<close> values. The loop of \<open>main\<close>
  over a vector of \<open>N\<close> values prints all of them, in order.
\<close>

theorem frequency_values_in_file_order:
  "(resolved f (CHR ''N'') = Some n \<and> getFrequencyValues f = Inr xs \<longrightarrow>
      length xs = n \<and> map_option contents (store f ''N'') = Some xs)
   \<and> (resolved f (CHR ''N'') = Some n \<and> store f ''N'' = Some v \<and> length (contents v) = n \<longrightarrow>
      getFrequencyValues f = Inr (contents v))
   \<and> (length xs = unat N \<longrightarrow>
      for_loop 0 (to_size_t N) (\<lambda>i. print_at xs i) out = Inr (out @ map Num xs))"
proof (intro conjI impI)
  assume a: "resolved f (CHR ''N'') = Some n \<and> getFrequencyValues f = Inr xs"
  then have "readTyped f ''N'' n = Inr xs" by (auto simp: getFrequencyValues_def)
  then show "length xs = n" and "map_option contents (store f ''N'') = Some xs"
    by (simp_all add: readTyped_Inr)
next
  assume "resolved f (CHR ''N'') = Some n \<and> store f ''N'' = Some v \<and> length (contents v) = n"
  then show "getFrequencyValues f = Inr (contents v)"
    by (simp add: getFrequencyValues_def readTyped_def)
next
  assume l: "length xs = unat N"
  have "unat N < 2 ^ 32" using unsigned_less [of N, where ?'a = nat] by simp
  then have "length xs < 2 ^ 64" using l by simp
  then show "for_loop 0 (to_size_t N) (\<lambda>i. print_at xs i) out = Inr (out @ map Num xs)"
    using l by (simp add: for_loop_print_result unat_to_size_t)
qed

text \<open>
  A file with \<open>N = 5\<close>.
\<close>

theorem frequency_values_in_file_order_witness:
  "getFrequencyValues (example_file 1 1 5
      [(''N'', \<lparr>shape = [5], contents = [100, 200, 400, 800, 1600 :: int]\<rparr>)])
     = Inr [100, 200, 400, 800, 1600]
   \<and> length [100, 200, 400, 800, 1600 :: int] = 5
   \<and> for_loop 0 (to_size_t 5) (\<lambda>i. print_at [100, 200, 400, 800, 1600 :: int] i) []
     = Inr [Num 100, Num 200, Num 400, Num 800, Num 1600]"
proof -
  let ?v = "\<lparr>shape = [5], contents = [100, 200, 400, 800, 1600 :: int]\<rparr>"
  let ?F = "example_file 1 1 5 [(''N'', ?v)]"
  have h: "resolved ?F (CHR ''N'') = Some 5 \<and> store ?F ''N'' = Some ?v \<and> length (contents ?v) = 5"
    by (simp add: example_file_def)
  note t = frequency_values_in_file_order [of ?F 5 "contents ?v" ?v 5 "[]"]
  have a: "getFrequencyValues ?F = Inr (contents ?v)" using t h by blast
  have l: "length (contents ?v) = unat (5 :: 32 word)" by simp
  have b: "for_loop 0 (to_size_t 5) (\<lambda>i. print_at (contents ?v) i) [] = Inr ([] @ map Num (contents ?v))"
    using t l by blast
  show ?thesis using a b by simp
qed

text \<open>
  C5. When the variable \<open>ListenerPosition\<close> of a file has rank 3, a request for 2D access
  fails with \<open>ShapeMismatch\<close>. In the tool, \<open>PrintListener\<close> asserts rank 2 before it asks
  for the values: with the assertions compiled in, it stops there on a variable of rank 3
  and prints nothing.
\<close>

theorem listener_2D_access_on_rank3:
  "(store f ''ListenerPosition'' = Some v \<and> length (shape v) = 3 \<longrightarrow>
      getPositionValues f Listener Access2D = Inl ShapeMismatch)
   \<and> (GetPositionInfo lib file ''ListenerPosition'' = Inr ok
       \<and> GetVariableDimensions lib file ''ListenerPosition'' = Inr dims \<and> length dims = 3 \<longrightarrow>
      PrintListener lib True file out = Inl AssertFailed)"
  by (auto simp: getPositionValues_def PrintListener_def print_rank2_def SOFA_ASSERT_def)

text \<open>
  A listener position of shape \<open>[1, 3, 4]\<close>.
\<close>

theorem listener_2D_access_on_rank3_witness:
  "getPositionValues
      (example_file 4 1 1 [(''ListenerPosition'', \<lparr>shape = [1, 3, 4], contents = replicate 12 (0 :: int)\<rparr>)])
      Listener Access2D = Inl ShapeMismatch
   \<and> PrintListener (example_library [1, 3, 4] (replicate 12 (0 :: int)) 1 1 4 1 True [] [] []) True () []
      = Inl AssertFailed"
proof -
  let ?v = "\<lparr>shape = [1, 3, 4], contents = replicate 12 (0 :: int)\<rparr>"
  let ?F = "example_file 4 1 1 [(''ListenerPosition'', ?v)]"
  let ?L = "example_library [1, 3, 4] (replicate 12 (0 :: int)) 1 1 4 1 True [] [] []"
  have h: "store ?F ''ListenerPosition'' = Some ?v \<and> length (shape ?v) = 3"
    by (simp add: example_file_def)
  have g: "GetPositionInfo ?L () ''ListenerPosition'' = Inr True
       \<and> GetVariableDimensions ?L () ''ListenerPosition'' = Inr [1, 3, 4] \<and> length [1, 3, 4 :: size_t] = 3"
    by (simp add: example_library_def)
  note t = listener_2D_access_on_rank3 [of ?F ?v ?L "()" True "[1, 3, 4]" "[]"]
  show ?thesis using t h g by blast
qed

end
